theory Spec2Isabelle
  imports Complex_Main "HOL-Library.Product_Lexorder" "HOL-Library.Log_Nat"
begin

section \<open>Monte Carlo AEP analysis (plant_analysis_v3.py): data model\<close>

text \<open>
  The embedding follows the class \<^verbatim>\<open>MonteCarloAEP\<close>. numpy's float64 values are
  modelled as \<^typ>\<open>real\<close> numbers (no NaN, no infinities; no rounding, except in the
  arithmetic of the Monte Carlo inputs, where a truncation follows it), Python strings
  as \<^typ>\<open>string\<close>, and every \<^verbatim>\<open>raise\<close> of the source as a value \<open>Inl e\<close> of
  the result type \<open>error + 'a\<close>.
\<close>

datatype error =
    ValueError string
  | PyException string
  | KeyError string
  | IndexError
  | AttributeError string
  | UnboundLocalError string

subsection \<open>Constructor arguments\<close>

text \<open>The keyword arguments of \<^verbatim>\<open>__init__\<close>; ranges are (low, high) pairs.\<close>

record config =
  uncertainty_meter :: real
  uncertainty_losses :: real
  uncertainty_windiness :: "real \<times> real"
  uncertainty_wind_bin_thresh :: "real \<times> real"
  uncertainty_loss_max :: "real \<times> real"
  uncertainty_max_power_filter :: "real \<times> real"
  uncertainty_nan_energy :: real
  time_resolution :: string
  reg_model :: string
  reg_temperature :: string
  reg_winddirection :: string

text \<open>
  The checks of \<^verbatim>\<open>__init__\<close> (source lines 95 to 117), in the order of the source.
  The result is the first error raised, or the value of \<^verbatim>\<open>num_days_lt\<close>, which the
  source sets only for the monthly resolution.
\<close>

definition num_days_lt_monthly :: "real list" where
  "num_days_lt_monthly = [31, 28.25, 31, 30, 31, 30, 31, 31, 30, 31, 30, 31]"

definition init_checks :: "config \<Rightarrow> error + real list option" where
  "init_checks c =
    (if time_resolution c \<notin> set [''M'', ''D''] then
       Inl (ValueError ''time_res has to either be M (monthly, default) or D (daily)'')
     else if reg_temperature c \<notin> set [''Y'', ''N''] then
       Inl (ValueError ''reg_temperature has to either be Y (if temperature is considered in the regression), or N (if temperature is omitted'')
     else if reg_winddirection c \<notin> set [''Y'', ''N''] then
       Inl (ValueError ''reg_winddirection has to either be Y (if wind direction is considered in the regression), or N (if wind direction is omitted'')
     else if reg_model c \<notin> set [''lin'', ''gbm'', ''etr'', ''gam''] then
       Inl (ValueError ''reg_model has to either be lin (Linear regression, default), gbm (Gradient boosting model), etr (Extra trees regressor) or gam (Generalized additive model)'')
     else if time_resolution c = ''M'' \<and> reg_model c \<noteq> ''lin'' then
       Inl (ValueError ''For monthly time resolution, only linear regression is allowed!'')
     else Inr (if time_resolution c = ''M'' then Some num_days_lt_monthly else None))"

text \<open>
  The constructor: the checks, then the preprocessing step
  \<^verbatim>\<open>calculate_monthly_daily_dataframe\<close> and the period-of-record averages. The
  preprocessing resamples the raw plant data with pandas; it is the parameter \<open>preprocess\<close>
  here, called with the plant and the accepted configuration, and its own exceptions are
  its \<open>Inl\<close> results. \<open>build\<close> assembles the object from the three parts.
\<close>

definition MonteCarloAEP_init ::
  "('plant \<Rightarrow> config \<Rightarrow> error + 'tables) \<Rightarrow> (config \<Rightarrow> real list option \<Rightarrow> 'tables \<Rightarrow> 'obj) \<Rightarrow>
   'plant \<Rightarrow> config \<Rightarrow> error + 'obj" where
  "MonteCarloAEP_init preprocess build plant c =
    (case init_checks c of
       Inl e \<Rightarrow> Inl e
     | Inr nd \<Rightarrow>
        (case preprocess plant c of
           Inl e \<Rightarrow> Inl e
         | Inr t \<Rightarrow> Inr (build c nd t)))"

text \<open>The invalid configurations, in the words of the specification.\<close>

definition config_invalid :: "config \<Rightarrow> bool" where
  "config_invalid c \<longleftrightarrow>
     time_resolution c \<notin> {''M'', ''D''} \<or>
     reg_temperature c \<notin> {''Y'', ''N''} \<or>
     reg_winddirection c \<notin> {''Y'', ''N''} \<or>
     reg_model c \<notin> {''lin'', ''gbm'', ''etr'', ''gam''} \<or>
     (reg_model c \<noteq> ''lin'' \<and> time_resolution c = ''M'')"

definition default_config :: config where
  "default_config =
    \<lparr> uncertainty_meter = 0.005, uncertainty_losses = 0.05,
      uncertainty_windiness = (10, 20), uncertainty_wind_bin_thresh = (1, 3),
      uncertainty_loss_max = (10, 20), uncertainty_max_power_filter = (0.8, 0.9),
      uncertainty_nan_energy = 0.01, time_resolution = ''M'', reg_model = ''lin'',
      reg_temperature = ''N'', reg_winddirection = ''N'' \<rparr>"

subsection \<open>Wind direction from the averaged wind components\<close>

text \<open>
  \<^verbatim>\<open>np.arctan2(y, x)\<close> on real numbers: the angle in \<open>(-\<pi>, \<pi>]\<close> of the point
  \<open>(x, y)\<close>, and 0 at the origin. \<^verbatim>\<open>np.rad2deg\<close> multiplies by \<open>180 / \<pi>\<close>.
\<close>

definition arctan2 :: "real \<Rightarrow> real \<Rightarrow> real" where
  "arctan2 y x =
    (if 0 < x then arctan (y / x)
     else if x < 0 \<and> 0 \<le> y then arctan (y / x) + pi
     else if x < 0 \<and> y < 0 then arctan (y / x) - pi
     else if 0 < y then pi / 2
     else if y < 0 then - (pi / 2)
     else 0)"

definition rad2deg :: "real \<Rightarrow> real" where
  "rad2deg x = x * 180 / pi"

definition mean :: "real list \<Rightarrow> real" where
  "mean xs = sum_list xs / real (length xs)"

text \<open>
  \<^verbatim>\<open>process_reanalysis_data\<close>, lines 522 to 527 and 548 to 553: the raw components of
  one period are averaged, and the direction column \<^verbatim>\<open>_wd\<close> of the period is computed
  from the two averages.
\<close>

definition wind_direction :: "real \<Rightarrow> real \<Rightarrow> real" where
  "wind_direction u_avg v_avg = 180 - rad2deg (arctan2 (- u_avg) v_avg)"

definition period_wind_direction :: "real list \<Rightarrow> real list \<Rightarrow> real" where
  "period_wind_direction us vs = wind_direction (mean us) (mean vs)"

subsection \<open>The operating table and the analysis object\<close>

text \<open>
  The index of the monthly or daily table is a pandas DatetimeIndex; only the calendar
  fields of a timestamp are read. One row of \<^verbatim>\<open>self._monthly_daily.df\<close> is an
  \<open>op_row\<close>: the fixed columns by name, and the columns added per reanalysis product
  (the product name itself for the wind speed, and the names suffixed \<^verbatim>\<open>_temp\<close>,
  \<^verbatim>\<open>_wd\<close>, \<^verbatim>\<open>_u\<close>, \<^verbatim>\<open>_v\<close>) as the function \<open>rean\<close> from the column name.
\<close>

record timestamp =
  year :: int
  month :: nat
  day :: nat

record op_row =
  idx :: timestamp
  energy_gwh :: real
  num_days_expected :: real
  availability_gwh :: real
  curtailment_gwh :: real
  gross_energy_gwh :: real
  availability_pct :: real
  curtailment_pct :: real
  nan_flag :: bool
  availability_typical :: bool
  curtailment_typical :: bool
  rean :: "string \<Rightarrow> real"

text \<open>
  A row of the table that \<^verbatim>\<open>filter_outliers\<close> returns: the index and the pruned
  column list, in the order of the source, each column with its name.
\<close>

record valid_row =
  v_idx :: timestamp
  v_cols :: "(string \<times> real) list"

text \<open>
  The attributes of a \<^verbatim>\<open>MonteCarloAEP\<close> object that the modelled methods read or
  write, on top of the configuration. \<open>long_term_losses\<close> is unset until
  \<^verbatim>\<open>calculate_long_term_losses\<close> has run; \<open>outlier_filtering\<close> is the memo
  dictionary; \<open>reanalysis_por_avg\<close> has one row of per-product columns per calendar
  period. The table is taken to hold the columns of every product that is drawn (a
  missing column would be a KeyError in pandas). The arrays that \<^verbatim>\<open>run_regression\<close>
  only writes (\<^verbatim>\<open>_mc_slope\<close>, \<^verbatim>\<open>_mc_intercept\<close>, \<^verbatim>\<open>_mc_num_points\<close>,
  \<^verbatim>\<open>_r2_score\<close>, \<^verbatim>\<open>_mse_score\<close>) are left out.
\<close>

record analysis = config +
  plant_capacity :: real
  monthly_daily :: "op_row list"
  reanalysis_por_avg :: "(string \<Rightarrow> real) list"
  long_term_losses :: "(real \<times> real) option"
  num_sim :: nat
  reanal_subset :: "string list"
  mc_max_power_filter :: "real list"
  mc_wind_bin_thresh :: "real list"
  mc_metered_energy_fraction :: "real list"
  mc_loss_fraction :: "real list"
  mc_num_years_windiness :: "int list"
  mc_loss_threshold :: "real list"
  mc_reanalysis_product :: "string list"
  outlier_filtering :: "string \<times> real \<times> real \<Rightarrow> valid_row list option"

text \<open>
  \<^verbatim>\<open>self.num_days_lt\<close>: assigned once, by \<^verbatim>\<open>__init__\<close>, and only for the monthly
  resolution; reading it otherwise is an AttributeError.
\<close>

definition num_days_lt :: "'a config_scheme \<Rightarrow> real list option" where
  "num_days_lt s = (if time_resolution s = ''M'' then Some num_days_lt_monthly else None)"

subsection \<open>Long-term losses\<close>

text \<open>
  \<^verbatim>\<open>Series.groupby(key).mean()\<close>: one entry per distinct key, the keys in ascending
  order, each with the mean of the values of its group.
\<close>

definition group_keys :: "('k::linorder \<times> real) list \<Rightarrow> 'k list" where
  "group_keys kvs = sort (remdups (map fst kvs))"

definition group_values :: "('k \<times> real) list \<Rightarrow> 'k \<Rightarrow> real list" where
  "group_values kvs k = map snd (filter (\<lambda>kv. fst kv = k) kvs)"

definition groupby_mean :: "('k::linorder \<times> real) list \<Rightarrow> ('k \<times> real) list" where
  "groupby_mean kvs = map (\<lambda>k. (k, mean (group_values kvs k))) (group_keys kvs)"

definition days_year_lt :: real where
  "days_year_lt = 365.25"

text \<open>The two filtered columns \<^verbatim>\<open>avail_valid\<close> and \<^verbatim>\<open>curt_valid\<close>, with the index.\<close>

definition avail_valid :: "op_row list \<Rightarrow> (timestamp \<times> real) list" where
  "avail_valid df = map (\<lambda>r. (idx r, availability_pct r)) (filter availability_typical df)"

definition curt_valid :: "op_row list \<Rightarrow> (timestamp \<times> real) list" where
  "curt_valid df = map (\<lambda>r. (idx r, curtailment_pct r)) (filter curtailment_typical df)"

definition by_month :: "(timestamp \<times> real) list \<Rightarrow> (nat \<times> real) list" where
  "by_month xs = map (\<lambda>(i, x). (month i, x)) xs"

definition by_month_day :: "(timestamp \<times> real) list \<Rightarrow> ((nat \<times> nat) \<times> real) list" where
  "by_month_day xs = map (\<lambda>(i, x). ((month i, day i), x)) xs"

text \<open>
  \<^verbatim>\<open>pd.DataFrame(data = {'avail': ..., 'curt': ..., 'n_days': self.num_days_lt})\<close>:
  the index of the frame is the sorted union of the keys of the two Series, the tuple
  \<open>n_days\<close> is positional and must have the length of that index (a ValueError
  otherwise), and a key missing from a Series gives a NaN cell, which \<^verbatim>\<open>sum()\<close>
  skips. \<open>weighted_sum\<close> is the sum of one weighted column.
\<close>

definition frame_index :: "('k::linorder \<times> real) list \<Rightarrow> ('k \<times> real) list \<Rightarrow> 'k list" where
  "frame_index a c = sort (remdups (map fst a @ map fst c))"

definition weighted_sum :: "('k \<times> real) list \<Rightarrow> 'k list \<Rightarrow> real list \<Rightarrow> real" where
  "weighted_sum col index n_days =
     sum_list (map (\<lambda>(k, n). case map_of col k of Some x \<Rightarrow> x * n | None \<Rightarrow> 0) (zip index n_days))"

definition calculate_long_term_losses :: "analysis \<Rightarrow> error + analysis" where
  "calculate_long_term_losses s =
    (let df = monthly_daily s in
     if time_resolution s = ''M'' then
       (let avail_long_term = groupby_mean (by_month (avail_valid df));
            curt_long_term = groupby_mean (by_month (curt_valid df))
        in if length avail_long_term \<noteq> 12 then
             Inl (PyException ''Not all calendar months represented in long-term availability calculation'')
           else if length curt_long_term \<noteq> 12 then
             Inl (PyException ''Not all calendar months represented in long-term curtailment calculation'')
           else
             (case num_days_lt s of
                None \<Rightarrow> Inl (AttributeError ''num_days_lt'')
              | Some n_days \<Rightarrow>
                 (let index = frame_index avail_long_term curt_long_term in
                  if length n_days \<noteq> length index then
                    Inl (ValueError ''Length of values does not match length of index'')
                  else
                    (let avail_annual = weighted_sum avail_long_term index n_days / days_year_lt;
                         curt_annual = weighted_sum curt_long_term index n_days / days_year_lt
                     in Inr (s\<lparr>long_term_losses := Some (avail_annual, curt_annual)\<rparr>)))))
     else if time_resolution s = ''D'' then
       (let avail_long_term = groupby_mean (by_month_day (avail_valid df));
            curt_long_term = groupby_mean (by_month_day (curt_valid df))
        in if length avail_long_term \<noteq> 366 then
             Inl (PyException ''Not all calendar days represented in long-term availability calculation'')
           else if length curt_long_term \<noteq> 366 then
             Inl (PyException ''Not all calendar days represented in long-term curtailment calculation'')
           else
             (let avail_annual = sum_list (map snd avail_long_term) / days_year_lt;
                  curt_annual = sum_list (map snd curt_long_term) / days_year_lt
              in Inr (s\<lparr>long_term_losses := Some (avail_annual, curt_annual)\<rparr>)))
     else Inr s)"

text \<open>
  The calendar: the days of each month in a leap year, and the 366 (month, day) keys a
  timestamp can have. Every timestamp of a DatetimeIndex satisfies \<open>valid_month_day\<close>.
\<close>

definition max_day :: "nat \<Rightarrow> nat" where
  "max_day m = [31, 29, 31, 30, 31, 30, 31, 31, 30, 31, 30, 31] ! (m - 1)"

definition valid_month_day :: "nat \<times> nat \<Rightarrow> bool" where
  "valid_month_day md \<longleftrightarrow>
     1 \<le> fst md \<and> fst md \<le> 12 \<and> 1 \<le> snd md \<and> snd md \<le> max_day (fst md)"

definition valid_timestamp :: "timestamp \<Rightarrow> bool" where
  "valid_timestamp t \<longleftrightarrow> valid_month_day (month t, day t)"

definition calendar_days :: "(nat \<times> nat) list" where
  "calendar_days = filter valid_month_day (List.product [1..<13] [1..<32])"

text \<open>
  The quantities of the specification: the calendar months and calendar days represented
  among the typical rows, and the mean loss percentage of one calendar month or day.
\<close>

definition months_of :: "(timestamp \<times> real) list \<Rightarrow> nat set" where
  "months_of xs = (\<lambda>(i, x). month i) ` set xs"

definition month_days_of :: "(timestamp \<times> real) list \<Rightarrow> (nat \<times> nat) set" where
  "month_days_of xs = (\<lambda>(i, x). (month i, day i)) ` set xs"

definition month_mean :: "(timestamp \<times> real) list \<Rightarrow> nat \<Rightarrow> real" where
  "month_mean xs m = mean (map snd (filter (\<lambda>(i, x). month i = m) xs))"

definition month_day_mean :: "(timestamp \<times> real) list \<Rightarrow> nat \<times> nat \<Rightarrow> real" where
  "month_day_mean xs md = mean (map snd (filter (\<lambda>(i, x). (month i, day i) = md) xs))"

subsection \<open>The outlier filter and its memo dictionary\<close>

text \<open>
  Modelled from the spec: the helper \<^verbatim>\<open>filters.range_flag\<close> of the toolkit is not
  part of the sources at hand. The specification has it flag a value outside the closed
  range, as in "wind speed outside [0, 40] m/s" for the call with \<^verbatim>\<open>below = 0\<close> and
  \<^verbatim>\<open>above = 40\<close>; \<open>lo\<close> and \<open>hi\<close> stand for the arguments \<^verbatim>\<open>below\<close> and \<^verbatim>\<open>above\<close>.
\<close>

definition range_flag :: "real \<Rightarrow> real \<Rightarrow> real \<Rightarrow> bool" where
  "range_flag x lo hi \<longleftrightarrow> x < lo \<or> hi < x"

text \<open>
  The helper \<^verbatim>\<open>filters.unresponsive_flag\<close> (frozen sensor) is a parameter of the
  model: \<open>unresponsive_flag col threshold i\<close> is the flag it gives to position \<open>i\<close> of the
  column \<open>col\<close>. The helper \<^verbatim>\<open>filters.window_range_flag\<close> is called by the source, but
  its column \<^verbatim>\<open>flag_window\<close> is read nowhere (its use in \<^verbatim>\<open>flag_final\<close> is commented
  out) and is not among the returned columns, so it has no counterpart here.
\<close>

type_synonym unresponsive = "real list \<Rightarrow> nat \<Rightarrow> nat \<Rightarrow> bool"

text \<open>
  The capacity bound of the range filter on energy: the plant capacity over 366 days of
  24 hours (monthly) or one day of 24 hours (daily), divided by 1000. The local variable
  is unbound for any other resolution.
\<close>

definition plant_capac :: "analysis \<Rightarrow> real option" where
  "plant_capac s =
    (if time_resolution s = ''M'' then Some (plant_capacity s / 1000 * 366 * 24)
     else if time_resolution s = ''D'' then Some (plant_capacity s / 1000 * 1 * 24)
     else None)"

text \<open>The value of a named column of a row of the operating table.\<close>

definition column :: "op_row \<Rightarrow> string \<Rightarrow> real" where
  "column r c =
    (if c = ''energy_gwh'' then energy_gwh r
     else if c = ''availability_gwh'' then availability_gwh r
     else if c = ''curtailment_gwh'' then curtailment_gwh r
     else if c = ''num_days_expected'' then num_days_expected r
     else rean r c)"

text \<open>
  The column list of \<^verbatim>\<open>valid_data\<close>, by the four cases of the two regression flags
  and with \<^verbatim>\<open>num_days_expected\<close> for the monthly resolution only.
\<close>

definition valid_columns :: "string \<Rightarrow> string \<Rightarrow> string \<Rightarrow> string \<Rightarrow> string list" where
  "valid_columns res winddirection temperature reanal =
    (if winddirection = ''Y'' \<and> temperature = ''Y'' then
       [reanal, reanal @ ''_wd'', reanal @ ''_temp'', reanal @ ''_u'', reanal @ ''_v'']
     else if winddirection = ''Y'' \<and> temperature = ''N'' then
       [reanal, reanal @ ''_wd'', reanal @ ''_u'', reanal @ ''_v'']
     else if winddirection = ''N'' \<and> temperature = ''Y'' then
       [reanal, reanal @ ''_temp'']
     else [reanal])
    @ [''energy_gwh'', ''availability_gwh'', ''curtailment_gwh'']
    @ (if res = ''M'' then [''num_days_expected''] else [])"

definition select_columns :: "string list \<Rightarrow> op_row \<Rightarrow> valid_row" where
  "select_columns cols r = \<lparr> v_idx = idx r, v_cols = map (\<lambda>c. (c, column r c)) cols \<rparr>"

text \<open>
  \<^verbatim>\<open>filter_outliers(n)\<close>, the part after the dictionary lookup ("determine the valid
  data"): the sub-table, the flag columns and the result, in the order of the source,
  for the capacity bound \<open>capac\<close>, the product \<open>reanal\<close> and the loss threshold.
\<close>

definition determine_valid_data ::
  "unresponsive \<Rightarrow> analysis \<Rightarrow> real \<Rightarrow> string \<Rightarrow> real \<Rightarrow> valid_row list" where
  "determine_valid_data unresponsive_flag s capac reanal comb_loss_thresh =
    (let df = monthly_daily s;
         df_sub = filter (\<lambda>r. availability_pct r + curtailment_pct r < comb_loss_thresh
                               \<and> nan_flag r = False) df;
         flag_neg = map (\<lambda>r. range_flag (energy_gwh r) 0 capac) df_sub;
         flag_range = map (\<lambda>r. range_flag (rean r reanal) 0 40) df_sub;
         flag_frozen = map (unresponsive_flag (map (\<lambda>r. rean r reanal) df_sub) 3)
                           [0..<length df_sub];
         flag_final = map2 (\<or>) flag_range flag_frozen;
         df_sub = map2 (\<lambda>r neg. if neg then r\<lparr>energy_gwh := 0\<rparr> else r) df_sub flag_neg
     in map (\<lambda>(r, flag). select_columns
               (valid_columns (time_resolution s) (reg_winddirection s) (reg_temperature s)
                  reanal) r)
            (filter (\<lambda>(r, flag). flag = False) (zip df_sub flag_final)))"

text \<open>
  \<^verbatim>\<open>filter_outliers(n)\<close>. The three arrays are indexed at \<open>n\<close> (an IndexError when out
  of range); a stored entry of the dictionary is returned as it is; otherwise the valid
  data are determined and stored under the key. The result comes with the updated
  object.
\<close>

definition filter_outliers ::
  "unresponsive \<Rightarrow> analysis \<Rightarrow> nat \<Rightarrow> error + valid_row list \<times> analysis" where
  "filter_outliers unresponsive_flag s n =
    (if length (mc_reanalysis_product s) \<le> n \<or> length (mc_max_power_filter s) \<le> n
        \<or> length (mc_loss_threshold s) \<le> n then Inl IndexError
     else
      (let reanal = mc_reanalysis_product s ! n;
           max_power_filter = mc_max_power_filter s ! n;
           comb_loss_thresh = mc_loss_threshold s ! n
       in case outlier_filtering s (reanal, max_power_filter, comb_loss_thresh) of
            Some valid_data \<Rightarrow> Inr (valid_data, s)
          | None \<Rightarrow>
             (case plant_capac s of
                None \<Rightarrow> Inl (UnboundLocalError ''plant_capac'')
              | Some capac \<Rightarrow>
                 (let valid_data =
                        determine_valid_data unresponsive_flag s capac reanal comb_loss_thresh
                  in Inr (valid_data,
                       s\<lparr>outlier_filtering :=
                           (outlier_filtering s)
                             ((reanal, max_power_filter, comb_loss_thresh) \<mapsto> valid_data)\<rparr>)))))"

text \<open>
  The conditions of the specification on a row of the sub-table at position \<open>i\<close>: the
  combined loss below the threshold and no missing-data flag select the sub-table; the
  wind speed inside [0, 40] and no frozen flag keep a row of it.
\<close>

definition loss_ok :: "real \<Rightarrow> op_row \<Rightarrow> bool" where
  "loss_ok thresh r \<longleftrightarrow> availability_pct r + curtailment_pct r < thresh \<and> \<not> nan_flag r"

definition wind_ok :: "unresponsive \<Rightarrow> string \<Rightarrow> op_row list \<Rightarrow> nat \<times> op_row \<Rightarrow> bool" where
  "wind_ok unresponsive_flag reanal sub ir \<longleftrightarrow>
     0 \<le> rean (snd ir) reanal \<and> rean (snd ir) reanal \<le> 40
     \<and> \<not> unresponsive_flag (map (\<lambda>r. rean r reanal) sub) 3 (fst ir)"

definition kept_rows :: "unresponsive \<Rightarrow> string \<Rightarrow> real \<Rightarrow> op_row list \<Rightarrow> op_row list" where
  "kept_rows unresponsive_flag reanal thresh df =
    (let sub = filter (loss_ok thresh) df
     in map snd (filter (wind_ok unresponsive_flag reanal sub) (zip [0..<length sub] sub)))"

text \<open>
  The assignment \<^verbatim>\<open>df_sub.loc[df_sub['flag_neg'], 'energy_gwh'] = 0\<close> on one row, for
  the capacity bound \<open>capac\<close>.
\<close>

definition zero_flagged_energy :: "real \<Rightarrow> op_row \<Rightarrow> op_row" where
  "zero_flagged_energy capac r =
    (if range_flag (energy_gwh r) 0 capac then r\<lparr>energy_gwh := 0\<rparr> else r)"

text \<open>
  A sequence of calls of \<^verbatim>\<open>filter_outliers\<close> on the same object, as the simulation
  loop makes them, one per iteration index of the list; the first exception ends it.
\<close>

fun filter_outliers_calls :: "unresponsive \<Rightarrow> analysis \<Rightarrow> nat list \<Rightarrow> error + analysis" where
  "filter_outliers_calls unresponsive_flag s [] = Inr s"
| "filter_outliers_calls unresponsive_flag s (k # ks) =
    (case filter_outliers unresponsive_flag s k of
       Inl e \<Rightarrow> Inl e
     | Inr (valid_data, s') \<Rightarrow> filter_outliers_calls unresponsive_flag s' ks)"

text \<open>The key of the memo dictionary for iteration \<open>n\<close>.\<close>

definition filter_key :: "analysis \<Rightarrow> nat \<Rightarrow> string \<times> real \<times> real" where
  "filter_key s n = (mc_reanalysis_product s ! n, mc_max_power_filter s ! n, mc_loss_threshold s ! n)"

definition in_range :: "analysis \<Rightarrow> nat \<Rightarrow> bool" where
  "in_range s n \<longleftrightarrow>
     n < length (mc_reanalysis_product s) \<and> n < length (mc_max_power_filter s)
     \<and> n < length (mc_loss_threshold s)"

text \<open>The value of a named column of a returned row (a KeyError when absent).\<close>

definition v_column :: "valid_row \<Rightarrow> string \<Rightarrow> real option" where
  "v_column r c = map_of (v_cols r) c"

subsection \<open>Monte Carlo inputs\<close>

text \<open>
  The random generators are deterministic functions of an entropy source, one stream per
  call site of the source, in the order of the calls: a stream of raw natural numbers
  for each \<^verbatim>\<open>np.random.randint\<close> call and for \<^verbatim>\<open>random.sample\<close>, and a stream of
  standard normal variates for each \<^verbatim>\<open>np.random.normal\<close> call. Every outcome of the
  generators is the value for some entropy.
\<close>

record entropy =
  rand_max_power_filter :: "nat \<Rightarrow> nat"
  rand_wind_bin_thresh :: "nat \<Rightarrow> nat"
  normal_metered_energy :: "nat \<Rightarrow> real"
  normal_loss :: "nat \<Rightarrow> real"
  rand_num_years_windiness :: "nat \<Rightarrow> nat"
  rand_loss_threshold :: "nat \<Rightarrow> nat"
  rand_reanalysis_product :: "nat \<Rightarrow> nat"

text \<open>
  The bounds of the draws are float64 numbers, and the program passes products and sums
  of them to \<^verbatim>\<open>np.random.randint\<close>, which truncates them: there the rounding of the
  product decides the integer. So the arithmetic of \<^verbatim>\<open>setup_monte_carlo_inputs\<close> is
  that of IEEE 754 binary64: the exact result, rounded to the nearest number with a
  significand of 53 bits, ties to the even significand (for results in the range of the
  normal numbers; overflow and subnormal numbers are not modelled).
  \<open>float64_exponent x\<close> is the position of the leading bit of \<open>x\<close>, so that
  \<open>2 ^ e \<le> \<bar>x\<bar> < 2 ^ (e + 1)\<close>, and \<open>float64_round 0.57\<close> is the float64 number
  that the Python literal \<^verbatim>\<open>0.57\<close> denotes.
\<close>

definition pow2 :: "int \<Rightarrow> real" where
  "pow2 k = (if 0 \<le> k then 2 ^ nat k else 1 / 2 ^ nat (- k))"

definition round_half_even :: "real \<Rightarrow> int" where
  "round_half_even x =
    (let f = \<lfloor>x\<rfloor>; r = x - of_int f
     in if r < 1 / 2 then f else if 1 / 2 < r then f + 1 else if even f then f else f + 1)"

definition float64_exponent :: "real \<Rightarrow> int" where
  "float64_exponent x =
    (if 1 \<le> \<bar>x\<bar> then bitlen \<lfloor>\<bar>x\<bar>\<rfloor> - 1 else - bitlen (\<lceil>1 / \<bar>x\<bar>\<rceil> - 1))"

definition float64_round :: "real \<Rightarrow> real" where
  "float64_round x =
    (if x = 0 then 0
     else (let ulp = pow2 (float64_exponent x - 52)
           in of_int (round_half_even (x / ulp)) * ulp))"

definition float64_mul :: "real \<Rightarrow> real \<Rightarrow> real" where
  "float64_mul x y = float64_round (x * y)"

definition float64_div :: "real \<Rightarrow> real \<Rightarrow> real" where
  "float64_div x y = float64_round (x / y)"

definition float64_add :: "real \<Rightarrow> real \<Rightarrow> real" where
  "float64_add x y = float64_round (x + y)"

text \<open>Python's \<^verbatim>\<open>int(x)\<close> on a float: truncation towards zero.\<close>

definition py_int :: "real \<Rightarrow> int" where
  "py_int x = (if 0 \<le> x then \<lfloor>x\<rfloor> else \<lceil>x\<rceil>)"

text \<open>
  \<^verbatim>\<open>np.random.randint(low, high, size)\<close>: both bounds go through \<^verbatim>\<open>int\<close>, an empty
  range is a ValueError (when samples are taken), and each draw is an integer of the
  half-open range from \<open>low\<close> up to, not including, \<open>high\<close>; \<open>count\<close> is the
  argument \<^verbatim>\<open>size\<close>.
\<close>

definition randint :: "(nat \<Rightarrow> nat) \<Rightarrow> real \<Rightarrow> real \<Rightarrow> nat \<Rightarrow> error + int list" where
  "randint rnd low high count =
    (let ilow = py_int low; ihigh = py_int high
     in if count = 0 then Inr []
        else if ilow \<ge> ihigh then Inl (ValueError ''low >= high'')
        else Inr (map (\<lambda>i. ilow + int (rnd i mod nat (ihigh - ilow))) [0..<count]))"

text \<open>\<^verbatim>\<open>np.random.normal(loc, scale, size)\<close>; a negative scale is a ValueError.\<close>

definition normal :: "(nat \<Rightarrow> real) \<Rightarrow> real \<Rightarrow> real \<Rightarrow> nat \<Rightarrow> error + real list" where
  "normal z loc scale count =
    (if scale < 0 then Inl (ValueError ''scale < 0'')
     else Inr (map (\<lambda>i. loc + scale * z i) [0..<count]))"

text \<open>
  \<^verbatim>\<open>random.sample(population, k)\<close>: \<open>k\<close> elements at distinct positions, drawn one
  after the other; a sample larger than the population is a ValueError.
\<close>

fun draw_without_replacement :: "(nat \<Rightarrow> nat) \<Rightarrow> 'a list \<Rightarrow> nat \<Rightarrow> 'a list" where
  "draw_without_replacement rnd population 0 = []"
| "draw_without_replacement rnd population (Suc k) =
    (if population = [] then []
     else (let j = rnd k mod length population
           in population ! j
              # draw_without_replacement rnd (take j population @ drop (Suc j) population) k))"

definition random_sample :: "(nat \<Rightarrow> nat) \<Rightarrow> 'a list \<Rightarrow> nat \<Rightarrow> error + 'a list" where
  "random_sample rnd population k =
    (if length population < k then Inl (ValueError ''Sample larger than population or is negative'')
     else Inr (draw_without_replacement rnd population k))"

text \<open>Sequencing of steps that may raise.\<close>

definition and_then :: "error + 'a \<Rightarrow> ('a \<Rightarrow> error + 'b) \<Rightarrow> error + 'b" where
  "and_then m f = (case m of Inl e \<Rightarrow> Inl e | Inr x \<Rightarrow> f x)"

text \<open>
  \<^verbatim>\<open>setup_monte_carlo_inputs\<close>, the draws in the order of the source (the empty result
  arrays it allocates first are among the arrays left out of the object). The products
  and sums that give the bounds of \<^verbatim>\<open>randint\<close>, and the division of its draws by
  100, are float64 operations.
\<close>

definition setup_monte_carlo_inputs :: "entropy \<Rightarrow> analysis \<Rightarrow> error + analysis" where
  "setup_monte_carlo_inputs e s =
    and_then (randint (rand_max_power_filter e)
                (float64_mul (fst (uncertainty_max_power_filter s)) 100)
                (float64_mul (snd (uncertainty_max_power_filter s)) 100) (num_sim s))
     (\<lambda>max_power_filter.
    and_then (randint (rand_wind_bin_thresh e)
                (float64_mul (fst (uncertainty_wind_bin_thresh s)) 100)
                (float64_mul (snd (uncertainty_wind_bin_thresh s)) 100) (num_sim s))
     (\<lambda>wind_bin_thresh.
    and_then (normal (normal_metered_energy e) 1 (uncertainty_meter s) (num_sim s))
     (\<lambda>metered_energy_fraction.
    and_then (normal (normal_loss e) 1 (uncertainty_losses s) (num_sim s))
     (\<lambda>loss_fraction.
    and_then (randint (rand_num_years_windiness e)
                (fst (uncertainty_windiness s))
                (float64_add (snd (uncertainty_windiness s)) 1) (num_sim s))
     (\<lambda>num_years_windiness.
    and_then (randint (rand_loss_threshold e)
                (fst (uncertainty_loss_max s))
                (float64_add (snd (uncertainty_loss_max s)) 1) (num_sim s))
     (\<lambda>loss_threshold.
    and_then (random_sample (rand_reanalysis_product e)
                (concat (map (replicate (num_sim s)) (reanal_subset s))) (num_sim s))
     (\<lambda>reanalysis_product.
       Inr (s\<lparr> mc_max_power_filter := map (\<lambda>k. float64_div (real_of_int k) 100) max_power_filter,
               mc_wind_bin_thresh := map (\<lambda>k. float64_div (real_of_int k) 100) wind_bin_thresh,
               mc_metered_energy_fraction := metered_energy_fraction,
               mc_loss_fraction := loss_fraction,
               mc_num_years_windiness := num_years_windiness,
               mc_loss_threshold := map (\<lambda>k. float64_div (real_of_int k) 100) loss_threshold,
               mc_reanalysis_product := reanalysis_product \<rparr>))))))))"

subsection \<open>Regression data, regression and the simulation loop\<close>

text \<open>
  The collaborators outside the class are the fields of an \<open>engine\<close>:
  \<^item> \<open>ext_unresponsive_flag\<close>: the frozen-sensor helper of the outlier filter;
  \<^item> \<open>ext_sample\<close>: \<^verbatim>\<open>DataFrame.sample(frac = 0.8)\<close> for iteration \<open>n\<close>, a random
    subsample of the rows;
  \<^item> \<open>ext_linear_regression\<close>: \<^verbatim>\<open>LinearRegression().fit(X, y)\<close> of scikit-learn, giving
    \<^verbatim>\<open>coef_\<close> and \<^verbatim>\<open>intercept_\<close>, or its exception;
  \<^item> \<open>ext_hyper_optimize\<close>: the hyperparameter search of \<^verbatim>\<open>MachineLearningSetup\<close> for
    the named model and iteration \<open>n\<close>, giving the \<^verbatim>\<open>predict\<close> function of the fitted
    model, or its exception;
  \<^item> \<open>ext_long_term_reanalysis\<close>: the method \<^verbatim>\<open>sample_long_term_reanalysis(n, r)\<close>. It
    reads the long-term reanalysis table (built once, not part of \<open>analysis\<close>), the
    resolution and the two regression flags, and draws from the random generator; its
    pandas group-by statistics are not modelled. It is called with the iteration, the
    resolution, the two flags, the number of years and the product, and gives the rows
    of long-term regression inputs (one value per row when neither temperature nor wind
    direction is used).
\<close>

record engine =
  ext_unresponsive_flag :: unresponsive
  ext_sample :: "nat \<Rightarrow> real list list \<Rightarrow> real list list"
  ext_linear_regression :: "real list list \<Rightarrow> real list \<Rightarrow> error + real list \<times> real"
  ext_hyper_optimize ::
    "string \<Rightarrow> nat \<Rightarrow> real list list \<Rightarrow> real list \<Rightarrow> error + (real list list \<Rightarrow> real list)"
  ext_long_term_reanalysis ::
    "nat \<Rightarrow> string \<Rightarrow> string \<Rightarrow> string \<Rightarrow> int \<Rightarrow> string \<Rightarrow> error + real list list"

text \<open>Indexing an array (IndexError out of range) and a column of a returned row.\<close>

definition at_index :: "'a list \<Rightarrow> nat \<Rightarrow> error + 'a" where
  "at_index xs n = (if n < length xs then Inr (xs ! n) else Inl IndexError)"

definition get_column :: "valid_row \<Rightarrow> string \<Rightarrow> error + real" where
  "get_column r c = (case v_column r c of None \<Rightarrow> Inl (KeyError c) | Some x \<Rightarrow> Inr x)"

fun all_rows :: "(error + 'a) list \<Rightarrow> error + 'a list" where
  "all_rows [] = Inr []"
| "all_rows (r # rs) = and_then r (\<lambda>x. and_then (all_rows rs) (\<lambda>xs. Inr (x # xs)))"

text \<open>
  \<^verbatim>\<open>set_regression_data(n)\<close>, one row of its result: the wind speed, then the
  temperature and the sine and cosine of the wind direction when they are regression
  inputs, then the Monte Carlo sampled gross energy, normalized to 30 days for the
  monthly resolution.
\<close>

definition mc_gross_energy :: "real \<Rightarrow> real \<Rightarrow> real \<Rightarrow> real \<Rightarrow> real \<Rightarrow> real" where
  "mc_gross_energy energy metered_energy_fraction availability curtailment loss_fraction =
    (let mc_energy = energy * metered_energy_fraction;
         mc_availability = availability * loss_fraction;
         mc_curtailment = curtailment * loss_fraction
     in mc_energy + mc_availability + mc_curtailment)"

definition regression_row :: "analysis \<Rightarrow> nat \<Rightarrow> valid_row \<Rightarrow> error + real list" where
  "regression_row s n r =
    and_then (get_column r ''energy_gwh'') (\<lambda>energy.
    and_then (at_index (mc_metered_energy_fraction s) n) (\<lambda>metered_energy_fraction.
    and_then (get_column r ''availability_gwh'') (\<lambda>availability.
    and_then (at_index (mc_loss_fraction s) n) (\<lambda>loss_fraction.
    and_then (get_column r ''curtailment_gwh'') (\<lambda>curtailment.
    and_then
      (if time_resolution s = ''M'' then
         and_then (get_column r ''num_days_expected'') (\<lambda>num_days_expected.
           Inr (mc_gross_energy energy metered_energy_fraction availability curtailment
                  loss_fraction * 30 / num_days_expected))
       else if time_resolution s = ''D'' then
         Inr (mc_gross_energy energy metered_energy_fraction availability curtailment
                loss_fraction)
       else Inl (UnboundLocalError ''mc_gross_norm'')) (\<lambda>mc_gross_norm.
    and_then (at_index (mc_reanalysis_product s) n) (\<lambda>reanal.
    and_then (get_column r reanal) (\<lambda>wind_speed.
    and_then
      (if reg_temperature s = ''Y'' then
         and_then (get_column r (reanal @ ''_temp'')) (\<lambda>mc_temperature. Inr [mc_temperature])
       else Inr []) (\<lambda>temperature.
    and_then
      (if reg_winddirection s = ''Y'' then
         and_then (get_column r (reanal @ ''_wd'')) (\<lambda>mc_wind_direction.
           Inr [sin (2 * pi * mc_wind_direction / 360), cos (2 * pi * mc_wind_direction / 360)])
       else Inr []) (\<lambda>wind_direction.
      Inr ([wind_speed] @ temperature @ wind_direction @ [mc_gross_norm])))))))))))"

definition set_regression_data ::
  "engine \<Rightarrow> analysis \<Rightarrow> nat \<Rightarrow> error + real list list \<times> analysis" where
  "set_regression_data eng s n =
    and_then (filter_outliers (ext_unresponsive_flag eng) s n) (\<lambda>(reg_data, s').
    and_then (all_rows (map (regression_row s' n) reg_data)) (\<lambda>reg_inputs.
      Inr (reg_inputs, s')))"

text \<open>
  \<^verbatim>\<open>run_regression(n)\<close>: the slope vector and intercept of the linear model, or the
  fitted machine-learning model. The inputs are the first column alone when neither
  temperature nor wind direction is used, all columns but the last otherwise; the
  target is the last column.
\<close>

datatype fit = Linear "real list" real | Fitted "real list list \<Rightarrow> real list"

definition run_regression :: "engine \<Rightarrow> analysis \<Rightarrow> nat \<Rightarrow> error + fit \<times> analysis" where
  "run_regression eng s n =
    and_then (set_regression_data eng s n) (\<lambda>(reg_data, s').
     (let reg_data = ext_sample eng n reg_data;
          inputs = (if reg_temperature s' = ''N'' \<and> reg_winddirection s' = ''N''
                    then map (take 1) reg_data else map butlast reg_data);
          target = map last reg_data
      in if reg_model s' = ''lin'' then
           and_then (ext_linear_regression eng inputs target) (\<lambda>(mc_slope, mc_intercept).
             Inr (Linear mc_slope mc_intercept, s'))
         else
           and_then (ext_hyper_optimize eng (reg_model s') n inputs target) (\<lambda>random_search.
             Inr (Fitted random_search, s'))))"

text \<open>
  \<^verbatim>\<open>sample_long_term_losses(n)\<close>: the two long-term baseline scalars, each times the
  loss-bias draw of the iteration.
\<close>

definition sample_long_term_losses :: "analysis \<Rightarrow> nat \<Rightarrow> error + real \<times> real" where
  "sample_long_term_losses s n =
    (case long_term_losses s of
       None \<Rightarrow> Inl (AttributeError ''long_term_losses'')
     | Some (avail_annual, curt_annual) \<Rightarrow>
        and_then (at_index (mc_loss_fraction s) n) (\<lambda>loss_fraction.
          Inr (avail_annual * loss_fraction, curt_annual * loss_fraction)))"

text \<open>
  The regression inputs of one row of the period-of-record averages, by the four cases
  of the source, and the scalar product with the slope vector.
\<close>

definition por_inputs :: "analysis \<Rightarrow> string \<Rightarrow> (string \<Rightarrow> real) \<Rightarrow> real list" where
  "por_inputs s reanal row =
    (if reg_temperature s = ''N'' \<and> reg_winddirection s = ''N'' then [row reanal]
     else if reg_temperature s = ''Y'' \<and> reg_winddirection s = ''N'' then
       [row reanal, row (reanal @ ''_temp'')]
     else if reg_temperature s = ''N'' \<and> reg_winddirection s = ''Y'' then
       [row reanal, sin (2 * pi * row (reanal @ ''_wd'') / 360),
        cos (2 * pi * row (reanal @ ''_wd'') / 360)]
     else
       [row reanal, row (reanal @ ''_temp''), sin (2 * pi * row (reanal @ ''_wd'') / 360),
        cos (2 * pi * row (reanal @ ''_wd'') / 360)])"

definition dot :: "real list \<Rightarrow> real list \<Rightarrow> real" where
  "dot xs ys = sum_list (map2 (*) xs ys)"

text \<open>Undoing the normalization to 30-day months: the product with \<^verbatim>\<open>num_days_lt\<close>.\<close>

definition undo_normalization :: "analysis \<Rightarrow> real list \<Rightarrow> error + real list" where
  "undo_normalization s gross_norm =
    (if time_resolution s = ''M'' then
       (case num_days_lt s of
          None \<Rightarrow> Inl (AttributeError ''num_days_lt'')
        | Some n_days \<Rightarrow>
           if length gross_norm \<noteq> length n_days then
             Inl (ValueError ''Lengths must be equal'')
           else Inr (map2 (\<lambda>g d. g * d / 30) gross_norm n_days))
     else Inr gross_norm)"

text \<open>
  Applying the regression result to the long-term inputs and to the period-of-record
  averages, for the linear model (slope and intercept, then the normalization undone)
  and for a machine-learning model (its \<^verbatim>\<open>predict\<close>): the long-term and the
  period-of-record gross energy per calendar period.
\<close>

definition linear_gross ::
  "analysis \<Rightarrow> string \<Rightarrow> real list list \<Rightarrow> fit \<Rightarrow> error + real list \<times> real list" where
  "linear_gross s reanal reg_inputs_lt fitted =
    (case fitted of
       Fitted random_search \<Rightarrow> Inl (ValueError ''not a linear fit'')
     | Linear slope intercept \<Rightarrow>
        (let gross_norm_lt =
               (if reg_temperature s = ''N'' \<and> reg_winddirection s = ''N''
                then map (\<lambda>row. dot (take 1 row) (take 1 slope) + intercept) reg_inputs_lt
                else map (\<lambda>row. dot row slope + intercept) reg_inputs_lt);
             gross_norm_por =
               map (\<lambda>row. dot (por_inputs s reanal row) slope + intercept)
                   (reanalysis_por_avg s)
         in and_then (undo_normalization s gross_norm_lt) (\<lambda>gross_lt.
            and_then (undo_normalization s gross_norm_por) (\<lambda>gross_por.
              Inr (gross_lt, gross_por)))))"

definition fitted_gross ::
  "analysis \<Rightarrow> string \<Rightarrow> real list list \<Rightarrow> fit \<Rightarrow> error + real list \<times> real list" where
  "fitted_gross s reanal reg_inputs_lt fitted =
    (case fitted of
       Linear slope intercept \<Rightarrow> Inl (ValueError ''not a fitted model'')
     | Fitted ml_model_cv \<Rightarrow>
        (let gross_lt = ml_model_cv reg_inputs_lt;
             gross_por = ml_model_cv (map (por_inputs s reanal) (reanalysis_por_avg s))
         in Inr (gross_lt, gross_por)))"

text \<open>
  The first part of the body of the loop of \<^verbatim>\<open>run_AEP_monte_carlo\<close> for iteration
  \<open>n\<close>: the regression and the long-term inputs (in this order for the linear model, in
  the other order for the machine-learning models), and the two gross energies.
\<close>

definition long_term_gross ::
  "engine \<Rightarrow> analysis \<Rightarrow> nat \<Rightarrow> error + (real list \<times> real list) \<times> analysis" where
  "long_term_gross eng s n =
    (if reg_model s = ''lin'' then
       and_then (run_regression eng s n) (\<lambda>(fitted, s').
       and_then (at_index (mc_num_years_windiness s') n) (\<lambda>num_years.
       and_then (at_index (mc_reanalysis_product s') n) (\<lambda>reanal.
       and_then (ext_long_term_reanalysis eng n (time_resolution s') (reg_temperature s')
                   (reg_winddirection s') num_years reanal) (\<lambda>reg_inputs_lt.
       and_then (linear_gross s' reanal reg_inputs_lt fitted) (\<lambda>gross.
         Inr (gross, s'))))))
     else
       and_then (at_index (mc_num_years_windiness s) n) (\<lambda>num_years.
       and_then (at_index (mc_reanalysis_product s) n) (\<lambda>reanal.
       and_then (ext_long_term_reanalysis eng n (time_resolution s) (reg_temperature s)
                   (reg_winddirection s) num_years reanal) (\<lambda>reg_inputs_lt.
       and_then (run_regression eng s n) (\<lambda>(fitted, s').
       and_then (fitted_gross s' reanal reg_inputs_lt fitted) (\<lambda>gross.
         Inr (gross, s')))))))"

record sim_row =
  aep_GWh :: real
  avail_pct :: real
  curt_pct :: real
  lt_por_ratio :: real

text \<open>One iteration of the loop: the gross energies, the sampled losses, the result row.\<close>

definition simulate :: "engine \<Rightarrow> analysis \<Rightarrow> nat \<Rightarrow> error + sim_row \<times> analysis" where
  "simulate eng s n =
    and_then (long_term_gross eng s n) (\<lambda>((gross_lt, gross_por), s').
    and_then (sample_long_term_losses s' n) (\<lambda>(avail_lt_losses, curt_lt_losses).
      Inr (\<lparr> aep_GWh = sum_list gross_lt * (1 - avail_lt_losses),
              avail_pct = avail_lt_losses,
              curt_pct = curt_lt_losses,
              lt_por_ratio = sum_list gross_lt / sum_list gross_por \<rparr>, s')))"

fun simulations :: "engine \<Rightarrow> analysis \<Rightarrow> nat list \<Rightarrow> error + sim_row list \<times> analysis" where
  "simulations eng s [] = Inr ([], s)"
| "simulations eng s (n # ns) =
    and_then (simulate eng s n) (\<lambda>(row, s').
    and_then (simulations eng s' ns) (\<lambda>(rows, s'').
      Inr (row # rows, s'')))"

definition run_AEP_monte_carlo :: "engine \<Rightarrow> analysis \<Rightarrow> error + sim_row list \<times> analysis" where
  "run_AEP_monte_carlo eng s = simulations eng s [0..<num_sim s]"

text \<open>
  \<^verbatim>\<open>run(num_sim, reanal_subset)\<close>: the long-term losses, the Monte Carlo inputs and the
  simulation loop; the result table comes with the object.
\<close>

definition run ::
  "engine \<Rightarrow> entropy \<Rightarrow> analysis \<Rightarrow> nat \<Rightarrow> string list \<Rightarrow> error + sim_row list \<times> analysis" where
  "run eng e s n_sim products =
    and_then (calculate_long_term_losses (s\<lparr>num_sim := n_sim, reanal_subset := products\<rparr>))
      (\<lambda>s1.
    and_then (setup_monte_carlo_inputs e s1) (\<lambda>s2.
      run_AEP_monte_carlo eng s2))"

text \<open>
  The outcome of a method on an object whose wind-bin-threshold array has been
  replaced: the same exception, or the same value and the same updated object, with that
  array replaced. The table of results alone is the first component.
\<close>

definition with_wind_bin_thresh ::
  "real list \<Rightarrow> error + 'a \<times> analysis \<Rightarrow> error + 'a \<times> analysis" where
  "with_wind_bin_thresh w x =
    (case x of Inl e \<Rightarrow> Inl e | Inr (y, s) \<Rightarrow> Inr (y, s\<lparr>mc_wind_bin_thresh := w\<rparr>))"

definition results_of :: "error + 'a \<times> analysis \<Rightarrow> error + 'a" where
  "results_of x = (case x of Inl e \<Rightarrow> Inl e | Inr (y, s) \<Rightarrow> Inr y)"

subsection \<open>Example tables\<close>

text \<open>
  A row with 2 percent availability loss and 1 percent curtailment loss, a monthly table
  with one such row per calendar month, a daily table with one per calendar day, and an
  analysis object around a table.
\<close>

definition example_row :: "nat \<times> nat \<Rightarrow> op_row" where
  "example_row md =
    \<lparr> idx = \<lparr> year = 2016, month = fst md, day = snd md \<rparr>,
      energy_gwh = 9.7, num_days_expected = 30, availability_gwh = 0.2,
      curtailment_gwh = 0.1, gross_energy_gwh = 10, availability_pct = 0.02,
      curtailment_pct = 0.01, nan_flag = False, availability_typical = True,
      curtailment_typical = True, rean = (\<lambda>c. 8) \<rparr>"

definition example_monthly_table :: "op_row list" where
  "example_monthly_table = map (\<lambda>m. example_row (m, 1)) [1..<13]"

definition example_daily_table :: "op_row list" where
  "example_daily_table = map example_row calendar_days"

definition example_analysis :: "string \<Rightarrow> op_row list \<Rightarrow> analysis" where
  "example_analysis res df =
    \<lparr> uncertainty_meter = 0.005, uncertainty_losses = 0.05,
      uncertainty_windiness = (10, 20), uncertainty_wind_bin_thresh = (1, 3),
      uncertainty_loss_max = (10, 20), uncertainty_max_power_filter = (0.8, 0.9),
      uncertainty_nan_energy = 0.01, time_resolution = res, reg_model = ''lin'',
      reg_temperature = ''N'', reg_winddirection = ''N'',
      plant_capacity = 100, monthly_daily = df,
      reanalysis_por_avg = [], long_term_losses = None, num_sim = 3,
      reanal_subset = [''era''], mc_max_power_filter = [0.8, 0.85, 0.8],
      mc_wind_bin_thresh = [1, 2, 1.5], mc_metered_energy_fraction = [1, 1.01, 0.99],
      mc_loss_fraction = [1, 0.95, 1.05], mc_num_years_windiness = [10, 20, 15],
      mc_loss_threshold = [0.1, 0.2, 0.1],
      mc_reanalysis_product = [''era'', ''era'', ''era''],
      outlier_filtering = (\<lambda>k. None) \<rparr>"

text \<open>
  A table for the outlier filter: seven months, of which the fourth has too high a loss,
  the fifth a missing-data flag, the sixth a frozen wind speed (the third equal value in
  a row, by the example sensor check below) and the seventh a wind speed out of range;
  the second has a negative energy and the third an energy above the capacity bound.
\<close>

definition example_filter_row :: "nat \<Rightarrow> real \<Rightarrow> real \<Rightarrow> real \<Rightarrow> bool \<Rightarrow> op_row" where
  "example_filter_row m e a w nf =
    \<lparr> idx = \<lparr> year = 2016, month = m, day = 1 \<rparr>,
      energy_gwh = e, num_days_expected = 30, availability_gwh = 0.2,
      curtailment_gwh = 0.1, gross_energy_gwh = e + 0.3, availability_pct = a,
      curtailment_pct = 0.01, nan_flag = nf, availability_typical = True,
      curtailment_typical = True, rean = (\<lambda>c. w) \<rparr>"

definition example_filter_table :: "op_row list" where
  "example_filter_table =
    [example_filter_row 1 9.7 0.02 8 False,
     example_filter_row 2 (- 1) 0.02 7 False,
     example_filter_row 3 900 0.02 7 False,
     example_filter_row 4 9.7 0.5 7 False,
     example_filter_row 5 9.7 0.02 7 True,
     example_filter_row 6 5 0.02 7 False,
     example_filter_row 7 9.7 0.02 45 False]"

definition example_unresponsive :: unresponsive where
  "example_unresponsive col threshold i \<longleftrightarrow>
     threshold \<le> i \<and> col ! i = col ! (i - 1) \<and> col ! i = col ! (i - 2)"

text \<open>The rows expected from the filter on the example table, for the first iteration.\<close>

definition example_valid_row :: "nat \<Rightarrow> real \<Rightarrow> real \<Rightarrow> valid_row" where
  "example_valid_row m w e =
    \<lparr> v_idx = \<lparr> year = 2016, month = m, day = 1 \<rparr>,
      v_cols = [(''era'', w), (''energy_gwh'', e), (''availability_gwh'', 0.2),
                (''curtailment_gwh'', 0.1), (''num_days_expected'', 30)] \<rparr>"

definition example_valid_data :: "valid_row list" where
  "example_valid_data =
    [example_valid_row 1 8 9.7, example_valid_row 2 7 0, example_valid_row 3 7 0]"

text \<open>
  An engine and an object for a run of three simulations on the filter example: the
  regression always gives the slope 0.5 and the intercept 6, the subsample is the first
  four fifths of the rows, and the long-term wind speed is 8 m/s in every month.
\<close>

definition example_engine :: engine where
  "example_engine =
    \<lparr> ext_unresponsive_flag = example_unresponsive,
      ext_sample = (\<lambda>n rows. take (4 * length rows div 5) rows),
      ext_linear_regression = (\<lambda>inputs target. Inr ([0.5], 6)),
      ext_hyper_optimize = (\<lambda>model n inputs target. Inl (ValueError ''no model'')),
      ext_long_term_reanalysis = (\<lambda>n res temperature winddirection years reanal.
         Inr (replicate 12 [8])) \<rparr>"

definition example_run_state :: analysis where
  "example_run_state =
    (example_analysis ''M'' example_filter_table)
      \<lparr> reanalysis_por_avg := replicate 12 (\<lambda>c. 8), long_term_losses := Some (0.02, 0.01) \<rparr>"

definition example_results :: "sim_row list" where
  "example_results =
    [\<lparr> aep_GWh = 119.315, avail_pct = 0.02, curt_pct = 0.01, lt_por_ratio = 1 \<rparr>,
     \<lparr> aep_GWh = 119.43675, avail_pct = 0.019, curt_pct = 0.0095, lt_por_ratio = 1 \<rparr>,
     \<lparr> aep_GWh = 119.19325, avail_pct = 0.021, curt_pct = 0.0105, lt_por_ratio = 1 \<rparr>]"

section \<open>Configuration errors at construction\<close>

lemma init_checks_invalid:
  "config_invalid c \<longleftrightarrow> (\<exists>msg. init_checks c = Inl (ValueError msg))"
  by (auto simp: config_invalid_def init_checks_def)

lemma init_checks_valid:
  "\<not> config_invalid c \<Longrightarrow>
   init_checks c = Inr (if time_resolution c = ''M'' then Some num_days_lt_monthly else None)"
  by (auto simp: config_invalid_def init_checks_def)

text \<open>
  Claim C8. The constructor raises a ValueError whatever the plant data and the
  preprocessing are, that is before any preprocessing or simulation runs, if and only if
  the configuration is invalid: a time resolution other than M or D, a temperature or
  wind-direction flag other than Y or N, a regression model other than lin, gbm, etr or
  gam, or a model other than lin together with the monthly resolution. For a valid
  configuration the constructor raises nothing of its own: its result is the one of the
  preprocessing.
\<close>

theorem init_raises_iff_config_invalid:
  "(config_invalid c \<longleftrightarrow>
      (\<exists>msg. \<forall>(preprocess :: 'plant \<Rightarrow> config \<Rightarrow> error + 'tables)
                (build :: config \<Rightarrow> real list option \<Rightarrow> 'tables \<Rightarrow> 'obj) plant.
         MonteCarloAEP_init preprocess build plant c = Inl (ValueError msg)))
   \<and> (\<not> config_invalid c \<longrightarrow>
        (\<forall>(preprocess :: 'plant \<Rightarrow> config \<Rightarrow> error + 'tables)
           (build :: config \<Rightarrow> real list option \<Rightarrow> 'tables \<Rightarrow> 'obj) plant.
          MonteCarloAEP_init preprocess build plant c =
            (case preprocess plant c of
               Inl e \<Rightarrow> Inl e
             | Inr t \<Rightarrow>
                Inr (build c (if time_resolution c = ''M'' then Some num_days_lt_monthly else None) t))))"
  (is "(_ \<longleftrightarrow> ?raises) \<and> (_ \<longrightarrow> ?passes)")
proof (intro conjI impI iffI)
  assume "config_invalid c"
  then obtain msg where "init_checks c = Inl (ValueError msg)"
    using init_checks_invalid by blast
  then show ?raises
    by (auto simp: MonteCarloAEP_init_def)
next
  assume r: ?raises
  show "config_invalid c"
  proof (rule ccontr)
    assume "\<not> config_invalid c"
    then have "MonteCarloAEP_init (\<lambda>(p::'plant) c. Inr (undefined::'tables))
        (\<lambda>c nd t. (undefined::'obj)) undefined c = Inr undefined"
      by (simp add: MonteCarloAEP_init_def init_checks_valid)
    moreover from r obtain msg where
      "\<forall>(preprocess :: 'plant \<Rightarrow> config \<Rightarrow> error + 'tables)
          (build :: config \<Rightarrow> real list option \<Rightarrow> 'tables \<Rightarrow> 'obj) plant.
         MonteCarloAEP_init preprocess build plant c = Inl (ValueError msg)" ..
    then have "MonteCarloAEP_init (\<lambda>(p::'plant) c. Inr (undefined::'tables))
        (\<lambda>c nd t. (undefined::'obj)) undefined c = Inl (ValueError msg)"
      by (rule allE) (erule allE, erule allE)
    ultimately show False
      by simp
  qed
next
  assume "\<not> config_invalid c"
  then show ?passes
    by (simp add: MonteCarloAEP_init_def init_checks_valid)
qed

theorem init_raises_iff_config_invalid_witness:
  "config_invalid (default_config\<lparr>reg_model := ''gbm''\<rparr>)
   \<and> (\<exists>msg. \<forall>(preprocess :: unit \<Rightarrow> config \<Rightarrow> error + unit)
              (build :: config \<Rightarrow> real list option \<Rightarrow> unit \<Rightarrow> unit) plant.
         MonteCarloAEP_init preprocess build plant (default_config\<lparr>reg_model := ''gbm''\<rparr>)
           = Inl (ValueError msg))
   \<and> \<not> config_invalid default_config
   \<and> MonteCarloAEP_init (\<lambda>(p::unit) c. (Inr () :: error + unit))
        (\<lambda>c nd t. (time_resolution c, nd)) () default_config
       = Inr (''M'', Some num_days_lt_monthly)"
proof -
  have a: "config_invalid (default_config\<lparr>reg_model := ''gbm''\<rparr>)"
    by (simp add: config_invalid_def default_config_def)
  have b: "\<not> config_invalid default_config"
    by (simp add: config_invalid_def default_config_def)
  have t: "time_resolution default_config = ''M''"
    by (simp add: default_config_def)
  note c = init_raises_iff_config_invalid
    [where ?'plant = unit and ?'tables = unit and ?'obj = unit
       and c = "default_config\<lparr>reg_model := ''gbm''\<rparr>", THEN conjunct1, THEN iffD1, OF a]
  have d: "MonteCarloAEP_init (\<lambda>(p::unit) c. (Inr () :: error + unit))
        (\<lambda>c nd t. (time_resolution c, nd)) () default_config
       = Inr (''M'', Some num_days_lt_monthly)"
    using init_raises_iff_config_invalid
      [where ?'plant = unit and ?'tables = unit and ?'obj = "string \<times> real list option"
         and c = default_config, THEN conjunct2, THEN mp, OF b]
    by (simp add: t)
  show ?thesis
    by (intro conjI a b c d)
qed

section \<open>Wind direction\<close>


lemma arctan2_polar:
  assumes "x \<noteq> 0 \<or> y \<noteq> 0"
  shows "sqrt (x\<^sup>2 + y\<^sup>2) * cos (arctan2 y x) = x \<and> sqrt (x\<^sup>2 + y\<^sup>2) * sin (arctan2 y x) = y"
proof -
  have pos: "x \<noteq> 0 \<Longrightarrow> sqrt (x\<^sup>2 + y\<^sup>2) = \<bar>x\<bar> * sqrt (1 + (y / x)\<^sup>2)"
  proof -
    assume x: "x \<noteq> 0"
    have "x\<^sup>2 + y\<^sup>2 = x\<^sup>2 * (1 + (y / x)\<^sup>2)"
      using x by (simp add: field_simps power2_eq_square)
    then show ?thesis
      by (simp add: real_sqrt_mult)
  qed
  have nz: "sqrt (1 + (y / x)\<^sup>2) \<noteq> 0"
    by (metis add_nonneg_eq_0_iff real_sqrt_eq_zero_cancel_iff zero_le_power2 zero_neq_one zero_le_one)
  consider "0 < x" | "x < 0" "0 \<le> y" | "x < 0" "y < 0" | "x = 0" "0 < y" | "x = 0" "y < 0"
    using assms by linarith
  then show ?thesis
  proof cases
    case 1
    then show ?thesis using pos nz
      by (simp add: arctan2_def cos_arctan sin_arctan)
  next
    case 2
    then show ?thesis using pos nz
      by (simp add: arctan2_def cos_arctan sin_arctan)
  next
    case 3
    then show ?thesis using pos nz
      by (simp add: arctan2_def cos_arctan sin_arctan cos_diff sin_diff)
  next
    case 4
    then show ?thesis by (simp add: arctan2_def)
  next
    case 5
    then show ?thesis by (simp add: arctan2_def)
  qed
qed

lemma arctan2_range: "- pi < arctan2 y x \<and> arctan2 y x \<le> pi"
proof -
  have b: "- (pi / 2) < arctan (y / x)" "arctan (y / x) < pi / 2"
    by (rule arctan_lbound, rule arctan_ubound)
  have c: "x < 0 \<Longrightarrow> 0 \<le> y \<Longrightarrow> arctan (y / x) \<le> 0"
    by (simp add: divide_nonneg_neg arctan_le_zero_iff)
  have d: "x < 0 \<Longrightarrow> y < 0 \<Longrightarrow> 0 < arctan (y / x)"
    by (simp add: divide_neg_neg zero_less_arctan_iff)
  show ?thesis
    using b c d pi_gt_zero by (auto simp: arctan2_def)
qed

lemma wind_direction_range: "0 \<le> wind_direction u v \<and> wind_direction u v < 360"
proof -
  have "- pi < arctan2 (- u) v" "arctan2 (- u) v \<le> pi"
    using arctan2_range by blast+
  then have "- 180 < rad2deg (arctan2 (- u) v)" "rad2deg (arctan2 (- u) v) \<le> 180"
    using pi_gt_zero by (simp_all add: rad2deg_def field_simps)
  then show ?thesis by (simp add: wind_direction_def)
qed

lemma wind_direction_from:
  assumes "u \<noteq> 0 \<or> v \<noteq> 0"
  shows "u = - sqrt (u\<^sup>2 + v\<^sup>2) * sin (wind_direction u v * pi / 180)
       \<and> v = - sqrt (u\<^sup>2 + v\<^sup>2) * cos (wind_direction u v * pi / 180)"
proof -
  have e: "wind_direction u v * pi / 180 = pi - arctan2 (- u) v"
    by (simp add: wind_direction_def rad2deg_def field_simps)
  have "v \<noteq> 0 \<or> - u \<noteq> 0" using assms by auto
  from arctan2_polar [OF this] show ?thesis
    unfolding e by (simp add: add.commute)
qed

text \<open>
  Claim C5, as amended. The wind direction of a period is 180 minus the angle
  \<open>arctan2 (-u) v\<close> in degrees, of the averaged components \<open>u\<close> and \<open>v\<close>. For
  \<open>u = 0, v = 1\<close> it is 180 degrees; for \<open>u = 1, v = 0\<close> it is 270 degrees (a wind
  blowing towards the east comes from the west), not 90 degrees.
\<close>

theorem wind_direction_formula:
  "period_wind_direction us vs = 180 - rad2deg (arctan2 (- mean us) (mean vs))
   \<and> wind_direction 0 1 = 180
   \<and> wind_direction 1 0 = 270"
proof -
  have "wind_direction 0 1 = 180" "wind_direction 1 0 = 270"
    by (simp_all add: wind_direction_def arctan2_def rad2deg_def)
  then show ?thesis
    by (simp add: period_wind_direction_def wind_direction_def)
qed

text \<open>The claim as stated fails: for \<open>u = 1, v = 0\<close> the direction is not 90 degrees.\<close>

theorem wind_direction_east_counterexample: "wind_direction 1 0 \<noteq> 90"
  by (simp add: wind_direction_def arctan2_def rad2deg_def)

section \<open>Long-term losses: coverage and annualization\<close>

lemma length_groupby_mean: "length (groupby_mean kvs) = card (fst ` set kvs)"
  by (simp add: groupby_mean_def group_keys_def length_remdups_card_conv)

lemma keys_by_month: "fst ` set (by_month xs) = months_of xs"
  by (force simp: by_month_def months_of_def)

lemma keys_by_month_day: "fst ` set (by_month_day xs) = month_days_of xs"
  by (force simp: by_month_day_def month_days_of_def)

lemma group_values_by_month: "group_values (by_month xs) m = map snd (filter (\<lambda>(i, x). month i = m) xs)"
  by (induction xs) (auto simp: group_values_def by_month_def)

lemma group_values_by_month_day:
  "group_values (by_month_day xs) md = map snd (filter (\<lambda>(i, x). (month i, day i) = md) xs)"
  by (induction xs) (auto simp: group_values_def by_month_day_def)

lemma upt_1_13: "[1..<13] = [1, 2, 3, 4, 5, 6, 7, 8, 9, 10, 11, 12::nat]"
  by code_simp

lemma length_calendar_days: "length calendar_days = 366"
  by code_simp

lemma max_day_le_31: "1 \<le> m \<Longrightarrow> m \<le> 12 \<Longrightarrow> max_day m \<le> 31"
proof -
  assume "1 \<le> m" "m \<le> 12"
  then have "m \<in> set [1..<13]" by simp
  then show ?thesis
    unfolding upt_1_13 by (auto simp: max_day_def)
qed

lemma mem_calendar_days: "md \<in> set calendar_days \<longleftrightarrow> valid_month_day md"
  using max_day_le_31 [of "fst md"]
  by (cases md) (auto simp: calendar_days_def valid_month_day_def)

lemma distinct_calendar_days: "distinct calendar_days"
  by (simp add: calendar_days_def distinct_product)


lemma months_of_subset:
  "\<forall>x\<in>set xs. valid_timestamp (fst x) \<Longrightarrow> months_of xs \<subseteq> {1..12}"
  by (auto simp: months_of_def valid_timestamp_def valid_month_day_def)

lemma card_months_of_le:
  assumes "\<forall>x\<in>set xs. valid_timestamp (fst x)"
  shows "card (months_of xs) \<le> 12"
  using card_mono [OF _ months_of_subset [OF assms]] by simp

lemma months_of_full:
  assumes "\<forall>x\<in>set xs. valid_timestamp (fst x)" and "card (months_of xs) = 12"
  shows "months_of xs = {1..12}"
  using card_subset_eq [OF _ months_of_subset [OF assms(1)]] assms(2) by simp

lemma month_days_of_subset:
  "\<forall>x\<in>set xs. valid_timestamp (fst x) \<Longrightarrow> month_days_of xs \<subseteq> set calendar_days"
  by (auto simp: month_days_of_def valid_timestamp_def mem_calendar_days)

lemma card_calendar_days: "card (set calendar_days) = 366"
  using distinct_card [OF distinct_calendar_days] by (simp add: length_calendar_days)

lemma card_month_days_of_le:
  assumes "\<forall>x\<in>set xs. valid_timestamp (fst x)"
  shows "card (month_days_of xs) \<le> 366"
  using card_mono [OF _ month_days_of_subset [OF assms]] by (simp add: card_calendar_days)

lemma month_days_of_full:
  assumes "\<forall>x\<in>set xs. valid_timestamp (fst x)" and "card (month_days_of xs) = 366"
  shows "month_days_of xs = set calendar_days"
  using card_subset_eq [OF _ month_days_of_subset [OF assms(1)]] assms(2)
  by (simp add: card_calendar_days)

lemma valid_avail_valid:
  "\<forall>r\<in>set df. valid_timestamp (idx r) \<Longrightarrow> \<forall>x\<in>set (avail_valid df). valid_timestamp (fst x)"
  by (auto simp: avail_valid_def)

lemma valid_curt_valid:
  "\<forall>r\<in>set df. valid_timestamp (idx r) \<Longrightarrow> \<forall>x\<in>set (curt_valid df). valid_timestamp (fst x)"
  by (auto simp: curt_valid_def)

lemma length_month_groups: "length (groupby_mean (by_month xs)) = card (months_of xs)"
  by (simp add: length_groupby_mean keys_by_month)

lemma length_month_day_groups: "length (groupby_mean (by_month_day xs)) = card (month_days_of xs)"
  by (simp add: length_groupby_mean keys_by_month_day)

lemma keys_groupby_mean: "map fst (groupby_mean kvs) = group_keys kvs"
  by (simp add: groupby_mean_def comp_def)

lemma length_frame_index:
  "length (frame_index (groupby_mean a) (groupby_mean c)) = card (fst ` set a \<union> fst ` set c)"
  by (simp add: frame_index_def keys_groupby_mean group_keys_def length_remdups_card_conv)

lemma length_num_days_lt_monthly: "length num_days_lt_monthly = 12"
  by (simp add: num_days_lt_monthly_def)

lemma calc_monthly_avail_short:
  "time_resolution s = ''M'' \<Longrightarrow> card (months_of (avail_valid (monthly_daily s))) \<noteq> 12 \<Longrightarrow>
   calculate_long_term_losses s =
     Inl (PyException ''Not all calendar months represented in long-term availability calculation'')"
  by (simp add: calculate_long_term_losses_def Let_def length_month_groups)

lemma calc_monthly_curt_short:
  "time_resolution s = ''M'' \<Longrightarrow> card (months_of (avail_valid (monthly_daily s))) = 12 \<Longrightarrow>
   card (months_of (curt_valid (monthly_daily s))) \<noteq> 12 \<Longrightarrow>
   calculate_long_term_losses s =
     Inl (PyException ''Not all calendar months represented in long-term curtailment calculation'')"
  by (simp add: calculate_long_term_losses_def Let_def length_month_groups)


lemma calc_monthly_complete:
  assumes m: "time_resolution s = ''M''"
    and a: "months_of (avail_valid (monthly_daily s)) = {1..12}"
    and c: "months_of (curt_valid (monthly_daily s)) = {1..12}"
  shows "calculate_long_term_losses s =
     Inr (s\<lparr>long_term_losses := Some
       (weighted_sum (groupby_mean (by_month (avail_valid (monthly_daily s)))) [1..<13]
            num_days_lt_monthly / days_year_lt,
        weighted_sum (groupby_mean (by_month (curt_valid (monthly_daily s)))) [1..<13]
            num_days_lt_monthly / days_year_lt)\<rparr>)"
proof -
  let ?al = "groupby_mean (by_month (avail_valid (monthly_daily s)))"
  let ?cl = "groupby_mean (by_month (curt_valid (monthly_daily s)))"
  have la: "length ?al = 12" and lc: "length ?cl = 12"
    by (simp_all add: length_month_groups a c)
  have "set (frame_index ?al ?cl) = {1..<13}"
    using a c by (auto simp: frame_index_def keys_groupby_mean group_keys_def keys_by_month)
  moreover have "sorted (frame_index ?al ?cl)" "distinct (frame_index ?al ?cl)"
    by (simp_all add: frame_index_def)
  ultimately have fi: "frame_index ?al ?cl = [1..<13]"
    by (intro sorted_distinct_set_unique) simp_all
  have nd: "num_days_lt s = Some num_days_lt_monthly"
    by (simp add: num_days_lt_def m)
  show ?thesis
    unfolding calculate_long_term_losses_def Let_def
    by (simp only: m la lc nd fi length_num_days_lt_monthly length_upt if_True if_False
        option.case simp_thms) simp
qed


lemma calc_daily_avail_short:
  "time_resolution s = ''D'' \<Longrightarrow> card (month_days_of (avail_valid (monthly_daily s))) \<noteq> 366 \<Longrightarrow>
   calculate_long_term_losses s =
     Inl (PyException ''Not all calendar days represented in long-term availability calculation'')"
  by (simp add: calculate_long_term_losses_def Let_def length_month_day_groups)

lemma calc_daily_curt_short:
  "time_resolution s = ''D'' \<Longrightarrow> card (month_days_of (avail_valid (monthly_daily s))) = 366 \<Longrightarrow>
   card (month_days_of (curt_valid (monthly_daily s))) \<noteq> 366 \<Longrightarrow>
   calculate_long_term_losses s =
     Inl (PyException ''Not all calendar days represented in long-term curtailment calculation'')"
  by (simp add: calculate_long_term_losses_def Let_def length_month_day_groups)

lemma calc_daily_complete:
  "time_resolution s = ''D'' \<Longrightarrow> card (month_days_of (avail_valid (monthly_daily s))) = 366 \<Longrightarrow>
   card (month_days_of (curt_valid (monthly_daily s))) = 366 \<Longrightarrow>
   calculate_long_term_losses s =
     Inr (s\<lparr>long_term_losses := Some
       (sum_list (map snd (groupby_mean (by_month_day (avail_valid (monthly_daily s))))) / days_year_lt,
        sum_list (map snd (groupby_mean (by_month_day (curt_valid (monthly_daily s))))) / days_year_lt)\<rparr>)"
  by (simp add: calculate_long_term_losses_def Let_def length_month_day_groups)

lemma map_of_groupby_mean:
  "map_of (groupby_mean kvs) k =
     (if k \<in> fst ` set kvs then Some (mean (group_values kvs k)) else None)"
proof -
  have "map_of (map (\<lambda>k. (k, f k)) ks) k = (if k \<in> set ks then Some (f k) else None)"
    for f :: "'a \<Rightarrow> real" and ks
    by (induction ks) auto
  then show ?thesis
    by (simp add: groupby_mean_def group_keys_def)
qed

lemma weighted_sum_monthly:
  assumes "months_of xs = {1..12}"
  shows "weighted_sum (groupby_mean (by_month xs)) [1..<13] num_days_lt_monthly =
         (\<Sum>m\<leftarrow>[1..<13]. month_mean xs m * num_days_lt_monthly ! (m - 1))"
proof -
  have k: "\<And>m. m \<in> set [1..<13] \<Longrightarrow>
      map_of (groupby_mean (by_month xs)) m = Some (month_mean xs m)"
    using assms
    by (simp add: map_of_groupby_mean keys_by_month group_values_by_month month_mean_def)
  show ?thesis
    using k unfolding weighted_sum_def upt_1_13 num_days_lt_monthly_def
    by simp
qed

lemma sum_daily:
  assumes "month_days_of xs = set calendar_days"
  shows "sum_list (map snd (groupby_mean (by_month_day xs))) =
         (\<Sum>md\<leftarrow>calendar_days. month_day_mean xs md)"
proof -
  let ?ks = "group_keys (by_month_day xs)"
  have s: "set ?ks = set calendar_days"
    using assms by (simp add: group_keys_def keys_by_month_day)
  have d: "distinct ?ks"
    by (simp add: group_keys_def)
  have "sum_list (map snd (groupby_mean (by_month_day xs))) =
        (\<Sum>k\<leftarrow>?ks. month_day_mean xs k)"
    by (simp add: groupby_mean_def comp_def group_values_by_month_day month_day_mean_def)
  also have "\<dots> = sum (month_day_mean xs) (set ?ks)"
    using d by (rule sum_list_distinct_conv_sum_set)
  also have "\<dots> = (\<Sum>md\<leftarrow>calendar_days. month_day_mean xs md)"
    unfolding s using distinct_calendar_days by (rule sum_list_distinct_conv_sum_set [symmetric])
  finally show ?thesis .
qed

lemma valid_example_row: "valid_month_day md \<Longrightarrow> valid_timestamp (idx (example_row md))"
  by (simp add: valid_timestamp_def example_row_def)

lemma valid_example_monthly_table: "\<forall>r\<in>set example_monthly_table. valid_timestamp (idx r)"
  unfolding example_monthly_table_def upt_1_13
  by (simp add: valid_timestamp_def example_row_def valid_month_day_def max_day_def)

lemma valid_example_daily_table: "\<forall>r\<in>set example_daily_table. valid_timestamp (idx r)"
  by (auto simp: example_daily_table_def valid_example_row mem_calendar_days)

lemma months_example_monthly:
  "months_of (avail_valid example_monthly_table) = {1..12}"
  "months_of (curt_valid example_monthly_table) = {1..12}"
  by (auto simp: months_of_def avail_valid_def curt_valid_def example_monthly_table_def
      example_row_def image_iff)

lemma month_days_example_daily:
  "month_days_of (avail_valid example_daily_table) = set calendar_days"
  "month_days_of (curt_valid example_daily_table) = set calendar_days"
  by (auto simp: month_days_of_def avail_valid_def curt_valid_def example_daily_table_def
      example_row_def image_iff)

lemma month_days_example_monthly:
  "month_days_of (avail_valid example_monthly_table) = (\<lambda>m. (m, 1)) ` {1..12}"
  by (auto simp: month_days_of_def avail_valid_def example_monthly_table_def
      example_row_def image_iff)

text \<open>
  Claim C2. On a table whose index holds calendar dates, the long-term loss estimation
  raises its coverage exception exactly when, among the rows flagged as typical, fewer
  than 12 distinct calendar months (monthly resolution) or fewer than 366 distinct
  (month, day) keys (daily resolution) are represented for availability or for
  curtailment; with full coverage of both it returns, and stores the two annualized
  scalars: for availability and for curtailment, the mean loss percentages of the 12
  calendar months, each weighted by the days of its month, summed and divided by the
  days of the year (monthly resolution), or the mean loss percentages of the 366
  calendar days, summed and divided by the days of the year (daily resolution).
\<close>

theorem long_term_losses_coverage:
  assumes v: "\<forall>r\<in>set (monthly_daily s). valid_timestamp (idx r)"
  shows
   "(time_resolution s = ''M'' \<longrightarrow>
       ((\<exists>msg. calculate_long_term_losses s = Inl (PyException msg)) \<longleftrightarrow>
          card (months_of (avail_valid (monthly_daily s))) < 12
          \<or> card (months_of (curt_valid (monthly_daily s))) < 12)
     \<and> (card (months_of (avail_valid (monthly_daily s))) = 12
          \<and> card (months_of (curt_valid (monthly_daily s))) = 12 \<longrightarrow>
        calculate_long_term_losses s = Inr (s\<lparr>long_term_losses := Some
          (weighted_sum (groupby_mean (by_month (avail_valid (monthly_daily s)))) [1..<13]
               num_days_lt_monthly / days_year_lt,
           weighted_sum (groupby_mean (by_month (curt_valid (monthly_daily s)))) [1..<13]
               num_days_lt_monthly / days_year_lt)\<rparr>)))
  \<and> (time_resolution s = ''D'' \<longrightarrow>
       ((\<exists>msg. calculate_long_term_losses s = Inl (PyException msg)) \<longleftrightarrow>
          card (month_days_of (avail_valid (monthly_daily s))) < 366
          \<or> card (month_days_of (curt_valid (monthly_daily s))) < 366)
     \<and> (card (month_days_of (avail_valid (monthly_daily s))) = 366
          \<and> card (month_days_of (curt_valid (monthly_daily s))) = 366 \<longrightarrow>
        calculate_long_term_losses s = Inr (s\<lparr>long_term_losses := Some
          (sum_list (map snd (groupby_mean (by_month_day (avail_valid (monthly_daily s)))))
               / days_year_lt,
           sum_list (map snd (groupby_mean (by_month_day (curt_valid (monthly_daily s)))))
               / days_year_lt)\<rparr>)))"
proof (intro conjI impI)
  let ?A = "avail_valid (monthly_daily s)" and ?C = "curt_valid (monthly_daily s)"
  have va: "\<forall>x\<in>set ?A. valid_timestamp (fst x)" and vc: "\<forall>x\<in>set ?C. valid_timestamp (fst x)"
    using v by (simp_all add: valid_avail_valid valid_curt_valid)
  {
    assume m: "time_resolution s = ''M''"
    have la: "card (months_of ?A) \<le> 12" and lc: "card (months_of ?C) \<le> 12"
      using va vc by (simp_all add: card_months_of_le)
    show "(\<exists>msg. calculate_long_term_losses s = Inl (PyException msg)) \<longleftrightarrow>
          card (months_of ?A) < 12 \<or> card (months_of ?C) < 12"
    proof (cases "card (months_of ?A) = 12")
      case False
      with la calc_monthly_avail_short [OF m False] show ?thesis by simp
    next
      case a: True
      show ?thesis
      proof (cases "card (months_of ?C) = 12")
        case False
        with lc calc_monthly_curt_short [OF m a False] show ?thesis by simp
      next
        case True
        with a calc_monthly_complete [OF m months_of_full [OF va a] months_of_full [OF vc True]]
        show ?thesis by simp
      qed
    qed
  }
  {
    assume m: "time_resolution s = ''M''"
      and f: "card (months_of ?A) = 12 \<and> card (months_of ?C) = 12"
    then have ca: "card (months_of ?A) = 12" and cc: "card (months_of ?C) = 12"
      by simp_all
    show "calculate_long_term_losses s = Inr (s\<lparr>long_term_losses := Some
          (weighted_sum (groupby_mean (by_month ?A)) [1..<13] num_days_lt_monthly / days_year_lt,
           weighted_sum (groupby_mean (by_month ?C)) [1..<13] num_days_lt_monthly
             / days_year_lt)\<rparr>)"
      by (rule calc_monthly_complete [OF m months_of_full [OF va ca] months_of_full [OF vc cc]])
  }
  {
    assume d: "time_resolution s = ''D''"
    have la: "card (month_days_of ?A) \<le> 366" and lc: "card (month_days_of ?C) \<le> 366"
      using va vc by (simp_all add: card_month_days_of_le)
    show "(\<exists>msg. calculate_long_term_losses s = Inl (PyException msg)) \<longleftrightarrow>
          card (month_days_of ?A) < 366 \<or> card (month_days_of ?C) < 366"
    proof (cases "card (month_days_of ?A) = 366")
      case False
      with la calc_daily_avail_short [OF d False] show ?thesis by simp
    next
      case a: True
      show ?thesis
      proof (cases "card (month_days_of ?C) = 366")
        case False
        with lc calc_daily_curt_short [OF d a False] show ?thesis by simp
      next
        case True
        with a calc_daily_complete [OF d a True] show ?thesis by simp
      qed
    qed
  }
  {
    assume d: "time_resolution s = ''D''"
      and f: "card (month_days_of ?A) = 366 \<and> card (month_days_of ?C) = 366"
    then have ca: "card (month_days_of ?A) = 366" and cc: "card (month_days_of ?C) = 366"
      by simp_all
    show "calculate_long_term_losses s = Inr (s\<lparr>long_term_losses := Some
          (sum_list (map snd (groupby_mean (by_month_day ?A))) / days_year_lt,
           sum_list (map snd (groupby_mean (by_month_day ?C))) / days_year_lt)\<rparr>)"
      by (rule calc_daily_complete [OF d ca cc])
  }
qed

lemma monthly_daily_example [simp]: "monthly_daily (example_analysis res df) = df"
  and time_resolution_example [simp]: "time_resolution (example_analysis res df) = res"
  by (simp_all add: example_analysis_def)

lemma card_months_example: 
  "card (months_of (avail_valid example_monthly_table)) = 12"
  "card (months_of (curt_valid example_monthly_table)) = 12"
  by (simp_all add: months_example_monthly)

lemma card_month_days_example_daily: 
  "card (month_days_of (avail_valid example_daily_table)) = 366"
  "card (month_days_of (curt_valid example_daily_table)) = 366"
  by (simp_all add: month_days_example_daily card_calendar_days)

lemma card_month_days_example_monthly:
  "card (month_days_of (avail_valid example_monthly_table)) = 12"
  by (simp add: month_days_example_monthly card_image inj_on_def)

lemma filter_eq_singleton: "distinct xs \<Longrightarrow> x \<in> set xs \<Longrightarrow> filter (\<lambda>y. y = x) xs = [x]"
  by (induction xs) (auto simp: filter_empty_conv)

lemma month_day_mean_example:
  assumes "md \<in> set calendar_days"
  shows "month_day_mean (avail_valid example_daily_table) md = 0.02"
    and "month_day_mean (curt_valid example_daily_table) md = 0.01"
proof -
  have "filter (\<lambda>(i, x). (month i, day i) = md) (avail_valid example_daily_table) =
        map (\<lambda>r. (idx r, availability_pct r)) (map example_row (filter (\<lambda>y. y = md) calendar_days))"
    by (simp add: avail_valid_def example_daily_table_def filter_map comp_def example_row_def)
  then show "month_day_mean (avail_valid example_daily_table) md = 0.02"
    using assms
    by (simp add: month_day_mean_def filter_eq_singleton distinct_calendar_days mean_def
        example_row_def)
  have "filter (\<lambda>(i, x). (month i, day i) = md) (curt_valid example_daily_table) =
        map (\<lambda>r. (idx r, curtailment_pct r)) (map example_row (filter (\<lambda>y. y = md) calendar_days))"
    by (simp add: curt_valid_def example_daily_table_def filter_map comp_def example_row_def)
  then show "month_day_mean (curt_valid example_daily_table) md = 0.01"
    using assms
    by (simp add: month_day_mean_def filter_eq_singleton distinct_calendar_days mean_def
        example_row_def)
qed

lemma sum_month_day_mean_example:
  "(\<Sum>md\<leftarrow>calendar_days. month_day_mean (avail_valid example_daily_table) md) = 7.32"
  "(\<Sum>md\<leftarrow>calendar_days. month_day_mean (curt_valid example_daily_table) md) = 3.66"
proof -
  have "map (month_day_mean (avail_valid example_daily_table)) calendar_days =
        map (\<lambda>md. 0.02) calendar_days"
    by (rule map_cong) (simp_all add: month_day_mean_example)
  then have "(\<Sum>md\<leftarrow>calendar_days. month_day_mean (avail_valid example_daily_table) md) =
      (\<Sum>md\<leftarrow>calendar_days. 0.02)"
    by (rule arg_cong)
  also have "\<dots> = 7.32"
    by (simp add: sum_list_triv length_calendar_days)
  finally show "(\<Sum>md\<leftarrow>calendar_days. month_day_mean (avail_valid example_daily_table) md) = 7.32" .
  have "map (month_day_mean (curt_valid example_daily_table)) calendar_days =
        map (\<lambda>md. 0.01) calendar_days"
    by (rule map_cong) (simp_all add: month_day_mean_example)
  then have "(\<Sum>md\<leftarrow>calendar_days. month_day_mean (curt_valid example_daily_table) md) =
      (\<Sum>md\<leftarrow>calendar_days. 0.01)"
    by (rule arg_cong)
  also have "\<dots> = 3.66"
    by (simp add: sum_list_triv length_calendar_days)
  finally show "(\<Sum>md\<leftarrow>calendar_days. month_day_mean (curt_valid example_daily_table) md) = 3.66" .
qed

lemma month_mean_example:
  assumes "m \<in> set [1..<13]"
  shows "month_mean (avail_valid example_monthly_table) m = 0.02"
    and "month_mean (curt_valid example_monthly_table) m = 0.01"
proof -
  have d: "distinct [1..<13::nat]" by simp
  have "filter (\<lambda>(i, x). month i = m) (avail_valid example_monthly_table) =
        map (\<lambda>r. (idx r, availability_pct r))
          (map (\<lambda>m. example_row (m, 1)) (filter (\<lambda>y. y = m) [1..<13]))"
    by (simp add: avail_valid_def example_monthly_table_def filter_map comp_def example_row_def)
  then show "month_mean (avail_valid example_monthly_table) m = 0.02"
    using assms unfolding month_mean_def filter_eq_singleton [OF d assms]
    by (simp add: mean_def example_row_def)
  have "filter (\<lambda>(i, x). month i = m) (curt_valid example_monthly_table) =
        map (\<lambda>r. (idx r, curtailment_pct r))
          (map (\<lambda>m. example_row (m, 1)) (filter (\<lambda>y. y = m) [1..<13]))"
    by (simp add: curt_valid_def example_monthly_table_def filter_map comp_def example_row_def)
  then show "month_mean (curt_valid example_monthly_table) m = 0.01"
    using assms unfolding month_mean_def filter_eq_singleton [OF d assms]
    by (simp add: mean_def example_row_def)
qed

lemma sum_month_mean_example:
  "(\<Sum>m\<leftarrow>[1..<13]. month_mean (avail_valid example_monthly_table) m
      * [31, 28.25, 31, 30, 31, 30, 31, 31, 30, 31, 30, 31] ! (m - 1)) = 7.305"
  "(\<Sum>m\<leftarrow>[1..<13]. month_mean (curt_valid example_monthly_table) m
      * [31, 28.25, 31, 30, 31, 30, 31, 31, 30, 31, 30, 31] ! (m - 1)) = 3.6525"
proof -
  have "map (\<lambda>m. month_mean (avail_valid example_monthly_table) m
      * [31, 28.25, 31, 30, 31, 30, 31, 31, 30, 31, 30, 31] ! (m - 1)) [1..<13] =
    map (\<lambda>m. 0.02 * [31, 28.25, 31, 30, 31, 30, 31, 31, 30, 31, 30, 31] ! (m - 1)) [1..<13]"
    by (rule map_cong) (simp_all only: month_mean_example)
  then have "(\<Sum>m\<leftarrow>[1..<13]. month_mean (avail_valid example_monthly_table) m
      * [31, 28.25, 31, 30, 31, 30, 31, 31, 30, 31, 30, 31] ! (m - 1)) =
      (\<Sum>m\<leftarrow>[1..<13]. 0.02 * [31, 28.25, 31, 30, 31, 30, 31, 31, 30, 31, 30, 31] ! (m - 1))"
    by (rule arg_cong)
  also have "\<dots> = 7.305"
    unfolding upt_1_13 by simp
  finally show "(\<Sum>m\<leftarrow>[1..<13]. month_mean (avail_valid example_monthly_table) m
      * [31, 28.25, 31, 30, 31, 30, 31, 31, 30, 31, 30, 31] ! (m - 1)) = 7.305" .
  have "map (\<lambda>m. month_mean (curt_valid example_monthly_table) m
      * [31, 28.25, 31, 30, 31, 30, 31, 31, 30, 31, 30, 31] ! (m - 1)) [1..<13] =
    map (\<lambda>m. 0.01 * [31, 28.25, 31, 30, 31, 30, 31, 31, 30, 31, 30, 31] ! (m - 1)) [1..<13]"
    by (rule map_cong) (simp_all only: month_mean_example)
  then have "(\<Sum>m\<leftarrow>[1..<13]. month_mean (curt_valid example_monthly_table) m
      * [31, 28.25, 31, 30, 31, 30, 31, 31, 30, 31, 30, 31] ! (m - 1)) =
      (\<Sum>m\<leftarrow>[1..<13]. 0.01 * [31, 28.25, 31, 30, 31, 30, 31, 31, 30, 31, 30, 31] ! (m - 1))"
    by (rule arg_cong)
  also have "\<dots> = 3.6525"
    unfolding upt_1_13 by simp
  finally show "(\<Sum>m\<leftarrow>[1..<13]. month_mean (curt_valid example_monthly_table) m
      * [31, 28.25, 31, 30, 31, 30, 31, 31, 30, 31, 30, 31] ! (m - 1)) = 3.6525" .
qed

theorem long_term_losses_coverage_witness:
  "list_all (\<lambda>r. valid_timestamp (idx r)) example_monthly_table
   \<and> card (months_of (avail_valid example_monthly_table)) = 12
   \<and> card (months_of (curt_valid example_monthly_table)) = 12
   \<and> calculate_long_term_losses (example_analysis ''M'' example_monthly_table) =
        Inr ((example_analysis ''M'' example_monthly_table)
              \<lparr>long_term_losses := Some (0.02, 0.01)\<rparr>)
   \<and> list_all (\<lambda>r. valid_timestamp (idx r)) example_daily_table
   \<and> card (month_days_of (avail_valid example_daily_table)) = 366
   \<and> card (month_days_of (curt_valid example_daily_table)) = 366
   \<and> calculate_long_term_losses (example_analysis ''D'' example_daily_table) =
        Inr ((example_analysis ''D'' example_daily_table)
              \<lparr>long_term_losses := Some (7.32 / 365.25, 3.66 / 365.25)\<rparr>)
   \<and> card (month_days_of (avail_valid example_monthly_table)) < 366
   \<and> (\<exists>msg. calculate_long_term_losses (example_analysis ''D'' example_monthly_table) =
        Inl (PyException msg))"
proof -
  have vm: "\<forall>r\<in>set (monthly_daily (example_analysis ''M'' example_monthly_table)).
      valid_timestamp (idx r)"
    and vd: "\<forall>r\<in>set (monthly_daily (example_analysis ''D'' example_daily_table)).
      valid_timestamp (idx r)"
    and vs: "\<forall>r\<in>set (monthly_daily (example_analysis ''D'' example_monthly_table)).
      valid_timestamp (idx r)"
    using valid_example_monthly_table valid_example_daily_table by simp_all
  have tm: "time_resolution (example_analysis ''M'' example_monthly_table) = ''M''"
    and td: "time_resolution (example_analysis ''D'' example_daily_table) = ''D''"
    by simp_all
  have cm: "card (months_of (avail_valid (monthly_daily
        (example_analysis ''M'' example_monthly_table)))) = 12
      \<and> card (months_of (curt_valid (monthly_daily
        (example_analysis ''M'' example_monthly_table)))) = 12"
    by (simp add: card_months_example)
  have cd: "card (month_days_of (avail_valid (monthly_daily
        (example_analysis ''D'' example_daily_table)))) = 366
      \<and> card (month_days_of (curt_valid (monthly_daily
        (example_analysis ''D'' example_daily_table)))) = 366"
    by (simp add: card_month_days_example_daily)
  have 1: "calculate_long_term_losses (example_analysis ''M'' example_monthly_table) =
        Inr ((example_analysis ''M'' example_monthly_table)
              \<lparr>long_term_losses := Some (0.02, 0.01)\<rparr>)"
    using long_term_losses_coverage [OF vm, THEN conjunct1, THEN mp, OF tm, THEN conjunct2,
        THEN mp, OF cm, unfolded monthly_daily_example
          weighted_sum_monthly [OF months_example_monthly(1)]
          weighted_sum_monthly [OF months_example_monthly(2)],
        unfolded num_days_lt_monthly_def sum_month_mean_example days_year_lt_def]
    by simp
  have 2: "calculate_long_term_losses (example_analysis ''D'' example_daily_table) =
        Inr ((example_analysis ''D'' example_daily_table)
              \<lparr>long_term_losses := Some (7.32 / 365.25, 3.66 / 365.25)\<rparr>)"
    using long_term_losses_coverage [OF vd, THEN conjunct2, THEN mp, OF td, THEN conjunct2,
        THEN mp, OF cd, unfolded monthly_daily_example
          sum_daily [OF month_days_example_daily(1)]
          sum_daily [OF month_days_example_daily(2)]
          sum_month_day_mean_example days_year_lt_def]
    by simp
  have 3: "\<exists>msg. calculate_long_term_losses (example_analysis ''D'' example_monthly_table) =
        Inl (PyException msg)"
    using long_term_losses_coverage [OF vs] by (simp add: card_month_days_example_monthly)
  show ?thesis
    using 1 2 3 valid_example_monthly_table valid_example_daily_table
    by (simp add: card_months_example card_month_days_example_daily
        card_month_days_example_monthly list_all_iff)
qed

text \<open>
  Claim C6. With full calendar coverage, the annualized loss of the monthly resolution
  is the sum over the 12 calendar months of the mean loss percentage of the month times
  the days of the month (28.25 for February), divided by 365.25; the one of the daily
  resolution is the sum of the 366 means per calendar day, divided by 365.25.
\<close>

theorem long_term_losses_annualized:
  assumes v: "\<forall>r\<in>set (monthly_daily s). valid_timestamp (idx r)"
  shows
   "(time_resolution s = ''M''
      \<and> card (months_of (avail_valid (monthly_daily s))) = 12
      \<and> card (months_of (curt_valid (monthly_daily s))) = 12 \<longrightarrow>
      calculate_long_term_losses s = Inr (s\<lparr>long_term_losses := Some
        ((\<Sum>m\<leftarrow>[1..<13]. month_mean (avail_valid (monthly_daily s)) m
              * [31, 28.25, 31, 30, 31, 30, 31, 31, 30, 31, 30, 31] ! (m - 1)) / 365.25,
         (\<Sum>m\<leftarrow>[1..<13]. month_mean (curt_valid (monthly_daily s)) m
              * [31, 28.25, 31, 30, 31, 30, 31, 31, 30, 31, 30, 31] ! (m - 1)) / 365.25)\<rparr>))
  \<and> (time_resolution s = ''D''
      \<and> card (month_days_of (avail_valid (monthly_daily s))) = 366
      \<and> card (month_days_of (curt_valid (monthly_daily s))) = 366 \<longrightarrow>
      calculate_long_term_losses s = Inr (s\<lparr>long_term_losses := Some
        ((\<Sum>md\<leftarrow>calendar_days. month_day_mean (avail_valid (monthly_daily s)) md) / 365.25,
         (\<Sum>md\<leftarrow>calendar_days. month_day_mean (curt_valid (monthly_daily s)) md) / 365.25)\<rparr>)
      \<and> length calendar_days = 366)"
proof (intro conjI impI)
  let ?A = "avail_valid (monthly_daily s)" and ?C = "curt_valid (monthly_daily s)"
  have va: "\<forall>x\<in>set ?A. valid_timestamp (fst x)" and vc: "\<forall>x\<in>set ?C. valid_timestamp (fst x)"
    using v by (simp_all add: valid_avail_valid valid_curt_valid)
  {
    assume h: "time_resolution s = ''M'' \<and> card (months_of ?A) = 12 \<and> card (months_of ?C) = 12"
    then have m: "time_resolution s = ''M''" and ca: "card (months_of ?A) = 12"
      and cc: "card (months_of ?C) = 12" by simp_all
    note a = months_of_full [OF va ca] and c = months_of_full [OF vc cc]
    show "calculate_long_term_losses s = Inr (s\<lparr>long_term_losses := Some
        ((\<Sum>m\<leftarrow>[1..<13]. month_mean ?A m
              * [31, 28.25, 31, 30, 31, 30, 31, 31, 30, 31, 30, 31] ! (m - 1)) / 365.25,
         (\<Sum>m\<leftarrow>[1..<13]. month_mean ?C m
              * [31, 28.25, 31, 30, 31, 30, 31, 31, 30, 31, 30, 31] ! (m - 1)) / 365.25)\<rparr>)"
      unfolding calc_monthly_complete [OF m a c] weighted_sum_monthly [OF a]
        weighted_sum_monthly [OF c]
      unfolding num_days_lt_monthly_def days_year_lt_def ..
  }
  {
    assume h: "time_resolution s = ''D'' \<and> card (month_days_of ?A) = 366
        \<and> card (month_days_of ?C) = 366"
    then have d: "time_resolution s = ''D''" and ca: "card (month_days_of ?A) = 366"
      and cc: "card (month_days_of ?C) = 366" by simp_all
    note a = month_days_of_full [OF va ca] and c = month_days_of_full [OF vc cc]
    show "calculate_long_term_losses s = Inr (s\<lparr>long_term_losses := Some
        ((\<Sum>md\<leftarrow>calendar_days. month_day_mean ?A md) / 365.25,
         (\<Sum>md\<leftarrow>calendar_days. month_day_mean ?C md) / 365.25)\<rparr>)"
      unfolding calc_daily_complete [OF d ca cc] sum_daily [OF a] sum_daily [OF c]
        days_year_lt_def ..
    show "length calendar_days = 366" by (rule length_calendar_days)
  }
qed

theorem long_term_losses_annualized_witness:
  "list_all (\<lambda>r. valid_timestamp (idx r)) example_monthly_table
   \<and> card (months_of (avail_valid example_monthly_table)) = 12
   \<and> card (months_of (curt_valid example_monthly_table)) = 12
   \<and> calculate_long_term_losses (example_analysis ''M'' example_monthly_table) =
        Inr ((example_analysis ''M'' example_monthly_table)\<lparr>long_term_losses := Some (0.02, 0.01)\<rparr>)
   \<and> list_all (\<lambda>r. valid_timestamp (idx r)) example_daily_table
   \<and> card (month_days_of (avail_valid example_daily_table)) = 366
   \<and> card (month_days_of (curt_valid example_daily_table)) = 366
   \<and> calculate_long_term_losses (example_analysis ''D'' example_daily_table) =
        Inr ((example_analysis ''D'' example_daily_table)
              \<lparr>long_term_losses := Some (7.32 / 365.25, 3.66 / 365.25)\<rparr>)"
proof -
  have vm: "\<forall>r\<in>set (monthly_daily (example_analysis ''M'' example_monthly_table)).
      valid_timestamp (idx r)"
    and vd: "\<forall>r\<in>set (monthly_daily (example_analysis ''D'' example_daily_table)).
      valid_timestamp (idx r)"
    using valid_example_monthly_table valid_example_daily_table by simp_all
  have tm: "time_resolution (example_analysis ''M'' example_monthly_table) = ''M''"
    and td: "time_resolution (example_analysis ''D'' example_daily_table) = ''D''"
    by simp_all
  have cm: "card (months_of (avail_valid (monthly_daily
        (example_analysis ''M'' example_monthly_table)))) = 12
      \<and> card (months_of (curt_valid (monthly_daily
        (example_analysis ''M'' example_monthly_table)))) = 12"
    by (simp add: card_months_example)
  have cd: "card (month_days_of (avail_valid (monthly_daily
        (example_analysis ''D'' example_daily_table)))) = 366
      \<and> card (month_days_of (curt_valid (monthly_daily
        (example_analysis ''D'' example_daily_table)))) = 366"
    by (simp add: card_month_days_example_daily)
  have 1: "calculate_long_term_losses (example_analysis ''M'' example_monthly_table) =
        Inr ((example_analysis ''M'' example_monthly_table)\<lparr>long_term_losses := Some (0.02, 0.01)\<rparr>)"
    using long_term_losses_annualized [OF vm, THEN conjunct1, THEN mp,
        OF conjI [OF tm cm], unfolded monthly_daily_example sum_month_mean_example]
    by simp
  have 2: "calculate_long_term_losses (example_analysis ''D'' example_daily_table) =
        Inr ((example_analysis ''D'' example_daily_table)
              \<lparr>long_term_losses := Some (7.32 / 365.25, 3.66 / 365.25)\<rparr>)"
    using long_term_losses_annualized [OF vd, THEN conjunct2, THEN mp,
        OF conjI [OF td cd], unfolded monthly_daily_example sum_month_day_mean_example]
    by simp
  show ?thesis
    using 1 2 valid_example_monthly_table valid_example_daily_table
    by (simp add: card_months_example card_month_days_example_daily list_all_iff)
qed

section \<open>The outlier filter: rows kept, energy set to zero, memoization\<close>

lemma determine_valid_data_kept:
  "determine_valid_data uf s capac reanal thresh =
     map (\<lambda>r. select_columns
            (valid_columns (time_resolution s) (reg_winddirection s) (reg_temperature s) reanal)
            (zero_flagged_energy capac r))
         (kept_rows uf reanal thresh (monthly_daily s))"
proof -
  define sub where "sub = filter (loss_ok thresh) (monthly_daily s)"
  have l: "(\<lambda>r. availability_pct r + curtailment_pct r < thresh \<and> nan_flag r = False)
      = loss_ok thresh"
    by (auto simp: loss_ok_def)
  have z: "zip (map2 (\<lambda>r neg. if neg then r\<lparr>energy_gwh := 0\<rparr> else r) sub
          (map (\<lambda>r. range_flag (energy_gwh r) 0 capac) sub))
       (map2 (\<or>) (map (\<lambda>r. range_flag (rean r reanal) 0 40) sub)
          (map (uf (map (\<lambda>r. rean r reanal) sub) 3) [0..<length sub]))
   = map (\<lambda>ir. (zero_flagged_energy capac (snd ir), \<not> wind_ok uf reanal sub ir))
       (zip [0..<length sub] sub)"
    by (rule nth_equalityI)
       (auto simp: zero_flagged_energy_def wind_ok_def range_flag_def)
  show ?thesis
    unfolding determine_valid_data_def Let_def l sub_def [symmetric] z kept_rows_def
    by (simp add: filter_map comp_def case_prod_unfold)
qed

lemma filter_outliers_hit:
  assumes "n < length (mc_reanalysis_product s)" "n < length (mc_max_power_filter s)"
    "n < length (mc_loss_threshold s)"
    and "outlier_filtering s (mc_reanalysis_product s ! n, mc_max_power_filter s ! n,
           mc_loss_threshold s ! n) = Some vd"
  shows "filter_outliers uf s n = Inr (vd, s)"
  using assms by (simp add: filter_outliers_def)

lemma filter_outliers_miss:
  assumes "n < length (mc_reanalysis_product s)" "n < length (mc_max_power_filter s)"
    "n < length (mc_loss_threshold s)"
    and "outlier_filtering s (mc_reanalysis_product s ! n, mc_max_power_filter s ! n,
           mc_loss_threshold s ! n) = None"
    and "plant_capac s = Some capac"
  shows "filter_outliers uf s n =
     Inr (determine_valid_data uf s capac (mc_reanalysis_product s ! n) (mc_loss_threshold s ! n),
       s\<lparr>outlier_filtering := (outlier_filtering s)
          ((mc_reanalysis_product s ! n, mc_max_power_filter s ! n, mc_loss_threshold s ! n)
             \<mapsto> determine_valid_data uf s capac (mc_reanalysis_product s ! n)
                    (mc_loss_threshold s ! n))\<rparr>)"
  using assms by (simp add: filter_outliers_def Let_def)

lemma filter_outliers_state:
  assumes "filter_outliers uf s k = Inr (v, s')"
  shows "\<exists>f. s' = s\<lparr>outlier_filtering := f\<rparr>
           \<and> (\<forall>key x. outlier_filtering s key = Some x \<longrightarrow> f key = Some x)
           \<and> f (filter_key s k) = Some v \<and> in_range s k"
proof -
  from assms have r: "in_range s k"
    by (auto simp: filter_outliers_def in_range_def split: if_splits)
  show ?thesis
  proof (cases "outlier_filtering s (filter_key s k)")
    case None
    with assms r show ?thesis
      apply (simp add: filter_outliers_def in_range_def filter_key_def Let_def split: option.splits)
      apply (rule exI [of _ "(outlier_filtering s)(filter_key s k \<mapsto> v)"])
      apply (auto simp: filter_key_def)
      done
  next
    case (Some a)
    with assms r have "v = a" "s' = s"
      by (simp_all add: filter_outliers_def in_range_def filter_key_def)
    with Some r show ?thesis
      by (intro exI [of _ "outlier_filtering s"]) simp
  qed
qed

lemma filter_key_update [simp]: "filter_key (s\<lparr>outlier_filtering := f\<rparr>) n = filter_key s n"
  and in_range_update [simp]: "in_range (s\<lparr>outlier_filtering := f\<rparr>) n = in_range s n"
  by (simp_all add: filter_key_def in_range_def)

lemma filter_outliers_calls_state:
  assumes "filter_outliers_calls uf s ks = Inr s'"
  shows "\<exists>f. s' = s\<lparr>outlier_filtering := f\<rparr>
           \<and> (\<forall>key x. outlier_filtering s key = Some x \<longrightarrow> f key = Some x)"
  using assms
proof (induction ks arbitrary: s)
  case Nil
  then show ?case
    by (intro exI [of _ "outlier_filtering s"]) simp
next
  case (Cons k ks)
  then obtain v s1 where 1: "filter_outliers uf s k = Inr (v, s1)"
    and 2: "filter_outliers_calls uf s1 ks = Inr s'"
    by (auto split: sum.splits)
  from filter_outliers_state [OF 1] obtain f where
    f: "s1 = s\<lparr>outlier_filtering := f\<rparr>" "\<forall>key x. outlier_filtering s key = Some x \<longrightarrow> f key = Some x"
    by blast
  from Cons.IH [OF 2] obtain g where
    g: "s' = s1\<lparr>outlier_filtering := g\<rparr>"
       "\<forall>key x. outlier_filtering s1 key = Some x \<longrightarrow> g key = Some x"
    by blast
  show ?case
    using f g by (intro exI [of _ g]) simp
qed

lemma filter_outliers_stored:
  assumes "in_range s m" and "outlier_filtering s (filter_key s m) = Some vd"
  shows "filter_outliers uf' (s\<lparr>monthly_daily := df', plant_capacity := c'\<rparr>) m =
         Inr (vd, s\<lparr>monthly_daily := df', plant_capacity := c'\<rparr>)"
  using assms by (simp add: filter_outliers_def in_range_def filter_key_def)

lemma example_analysis_fields [simp]:
  "plant_capacity (example_analysis res df) = 100"
  "mc_reanalysis_product (example_analysis res df) = [''era'', ''era'', ''era'']"
  "mc_max_power_filter (example_analysis res df) = [0.8, 0.85, 0.8]"
  "mc_loss_threshold (example_analysis res df) = [0.1, 0.2, 0.1]"
  "outlier_filtering (example_analysis res df) = (\<lambda>k. None)"
  "reg_winddirection (example_analysis res df) = ''N''"
  "reg_temperature (example_analysis res df) = ''N''"
  by (simp_all add: example_analysis_def)

lemma kept_rows_example:
  "kept_rows example_unresponsive ''era'' 0.1 example_filter_table =
    [example_filter_row 1 9.7 0.02 8 False,
     example_filter_row 2 (- 1) 0.02 7 False,
     example_filter_row 3 900 0.02 7 False]"
proof -
  have s: "filter (loss_ok 0.1) example_filter_table =
    [example_filter_row 1 9.7 0.02 8 False,
     example_filter_row 2 (- 1) 0.02 7 False,
     example_filter_row 3 900 0.02 7 False,
     example_filter_row 6 5 0.02 7 False,
     example_filter_row 7 9.7 0.02 45 False]"
    by (simp add: example_filter_table_def loss_ok_def example_filter_row_def)
  have u: "[0..<5] = [0, 1, 2, 3, 4::nat]"
    by code_simp
  show ?thesis
    unfolding kept_rows_def Let_def s
    by (simp add: u wind_ok_def example_unresponsive_def example_filter_row_def)
qed

lemma plant_capac_cases:
  "time_resolution s = ''M'' \<or> time_resolution s = ''D'' \<Longrightarrow>
   plant_capac s =
     Some (plant_capacity s / 1000 * (if time_resolution s = ''M'' then 366 * 24 else 24))"
  by (auto simp: plant_capac_def)

lemma v_column_select:
  "c \<in> set cols \<Longrightarrow> v_column (select_columns cols r) c = Some (column r c)"
proof -
  have "map_of (map (\<lambda>c. (c, f c)) cs) c = (if c \<in> set cs then Some (f c) else None)"
    for f :: "string \<Rightarrow> real" and cs
    by (induction cs) auto
  then show "c \<in> set cols \<Longrightarrow> v_column (select_columns cols r) c = Some (column r c)"
    by (simp add: v_column_def select_columns_def)
qed

lemma energy_in_valid_columns: "''energy_gwh'' \<in> set (valid_columns res wd temp reanal)"
  by (simp add: valid_columns_def)

lemma column_zero_flagged:
  "column (zero_flagged_energy capac r) c =
     (if c = ''energy_gwh'' \<and> range_flag (energy_gwh r) 0 capac then 0 else column r c)"
  by (simp add: zero_flagged_energy_def column_def)

lemma idx_zero_flagged [simp]: "idx (zero_flagged_energy capac r) = idx r"
  by (simp add: zero_flagged_energy_def)

text \<open>
  Claim C4. On a cache miss (the resolution being M or D), the outlier filter returns
  one row for each row of the base table that has the combined loss below the sampled
  threshold, no missing-data flag, the wind speed of the chosen product inside [0, 40]
  and no frozen-sensor flag (the flag being computed on the wind speeds of the rows that
  pass the first two conditions), in the order of the table; a negative energy is
  replaced by zero, no returned energy is negative, and every other returned column has
  the value of the base row.
\<close>

theorem filter_outliers_cache_miss:
  assumes "in_range s n" and "outlier_filtering s (filter_key s n) = None"
    and "time_resolution s = ''M'' \<or> time_resolution s = ''D''"
  shows "\<exists>valid_data s'.
     filter_outliers unresponsive_flag s n = Inr (valid_data, s')
   \<and> map v_idx valid_data =
       map idx (kept_rows unresponsive_flag (mc_reanalysis_product s ! n)
                  (mc_loss_threshold s ! n) (monthly_daily s))
   \<and> (\<forall>j < length valid_data.
        \<forall>r. r = kept_rows unresponsive_flag (mc_reanalysis_product s ! n)
                  (mc_loss_threshold s ! n) (monthly_daily s) ! j \<longrightarrow>
          (energy_gwh r < 0 \<longrightarrow> v_column (valid_data ! j) ''energy_gwh'' = Some 0)
        \<and> (\<exists>e. v_column (valid_data ! j) ''energy_gwh'' = Some e \<and> 0 \<le> e)
        \<and> (\<forall>c \<in> set (map fst (v_cols (valid_data ! j))).
              c \<noteq> ''energy_gwh'' \<longrightarrow> v_column (valid_data ! j) c = Some (column r c)))"
proof -
  let ?reanal = "mc_reanalysis_product s ! n"
  let ?cols = "valid_columns (time_resolution s) (reg_winddirection s) (reg_temperature s) ?reanal"
  let ?kept = "kept_rows unresponsive_flag ?reanal (mc_loss_threshold s ! n) (monthly_daily s)"
  obtain capac where c: "plant_capac s = Some capac"
    using plant_capac_cases [OF assms(3)] by blast
  let ?vd = "map (\<lambda>r. select_columns ?cols (zero_flagged_energy capac r)) ?kept"
  have m: "filter_outliers unresponsive_flag s n =
      Inr (?vd, s\<lparr>outlier_filtering := (outlier_filtering s)(filter_key s n \<mapsto> ?vd)\<rparr>)"
    using assms(1,2) filter_outliers_miss [of n s capac unresponsive_flag, OF _ _ _ _ c]
    by (simp add: in_range_def filter_key_def determine_valid_data_kept)
  have i: "map v_idx ?vd = map idx ?kept"
    by (simp add: select_columns_def comp_def)
  have e: "v_column (?vd ! j) ''energy_gwh'' =
      Some (if range_flag (energy_gwh (?kept ! j)) 0 capac then 0 else energy_gwh (?kept ! j))"
    if "j < length ?kept" for j
    using that
    by (simp add: v_column_select energy_in_valid_columns column_zero_flagged) (simp add: column_def)
  have o: "v_column (?vd ! j) c = Some (column (?kept ! j) c)"
    if "j < length ?kept" "c \<in> set ?cols" "c \<noteq> ''energy_gwh''" for j c
    using that by (simp add: v_column_select column_zero_flagged)
  have k: "map fst (v_cols (?vd ! j)) = ?cols" if "j < length ?kept" for j
    using that by (simp add: select_columns_def comp_def)
  have p: "\<forall>j < length ?vd.
        \<forall>r. r = ?kept ! j \<longrightarrow>
          (energy_gwh r < 0 \<longrightarrow> v_column (?vd ! j) ''energy_gwh'' = Some 0)
        \<and> (\<exists>e. v_column (?vd ! j) ''energy_gwh'' = Some e \<and> 0 \<le> e)
        \<and> (\<forall>c \<in> set (map fst (v_cols (?vd ! j))).
              c \<noteq> ''energy_gwh'' \<longrightarrow> v_column (?vd ! j) c = Some (column r c))"
  proof (intro allI impI conjI ballI)
    fix j r assume "j < length ?vd" "r = ?kept ! j" "energy_gwh r < 0"
    then show "v_column (?vd ! j) ''energy_gwh'' = Some 0"
      using e [of j] by (simp add: range_flag_def)
  next
    fix j r assume "j < length ?vd" "r = ?kept ! j"
    then show "\<exists>e. v_column (?vd ! j) ''energy_gwh'' = Some e \<and> 0 \<le> e"
      using e [of j] by (simp add: range_flag_def)
  next
    fix j r c assume a: "j < length ?vd" "r = ?kept ! j"
      "c \<in> set (map fst (v_cols (?vd ! j)))" "c \<noteq> ''energy_gwh''"
    from a(1) have jl: "j < length ?kept" by simp
    from a(3) have "c \<in> set ?cols" unfolding k [OF jl] .
    from o [OF jl this a(4)] show "v_column (?vd ! j) c = Some (column r c)"
      unfolding a(2) .
  qed
  show ?thesis
    by (rule exI [of _ ?vd],
        rule exI [of _ "s\<lparr>outlier_filtering := (outlier_filtering s)(filter_key s n \<mapsto> ?vd)\<rparr>"])
       (intro conjI m i p)
qed

text \<open>
  Claim C10. On a cache miss, a row whose energy exceeds the capacity bound (the plant
  capacity divided by 1000, times 366 * 24 for the monthly and times 24 for the daily
  resolution) is flagged by the same range flag as a negative energy and is returned
  with its energy set to zero: it is neither dropped (the returned rows are the kept
  rows, whatever their energy) nor left unchanged; an energy inside the range is
  returned as it is.
\<close>

theorem energy_above_capacity_zeroed:
  assumes "in_range s n" and "outlier_filtering s (filter_key s n) = None"
    and "time_resolution s = ''M'' \<or> time_resolution s = ''D''"
  shows "\<exists>valid_data s' capac.
     filter_outliers unresponsive_flag s n = Inr (valid_data, s')
   \<and> capac = plant_capacity s / 1000 * (if time_resolution s = ''M'' then 366 * 24 else 24)
   \<and> map v_idx valid_data =
       map idx (kept_rows unresponsive_flag (mc_reanalysis_product s ! n)
                  (mc_loss_threshold s ! n) (monthly_daily s))
   \<and> (\<forall>j < length valid_data.
        \<forall>r. r = kept_rows unresponsive_flag (mc_reanalysis_product s ! n)
                  (mc_loss_threshold s ! n) (monthly_daily s) ! j \<longrightarrow>
          (capac < energy_gwh r \<longrightarrow>
             range_flag (energy_gwh r) 0 capac
             \<and> v_column (valid_data ! j) ''energy_gwh'' = Some 0)
        \<and> (0 \<le> energy_gwh r \<and> energy_gwh r \<le> capac \<longrightarrow>
             v_column (valid_data ! j) ''energy_gwh'' = Some (energy_gwh r)))"
proof -
  let ?reanal = "mc_reanalysis_product s ! n"
  let ?cols = "valid_columns (time_resolution s) (reg_winddirection s) (reg_temperature s) ?reanal"
  let ?kept = "kept_rows unresponsive_flag ?reanal (mc_loss_threshold s ! n) (monthly_daily s)"
  let ?capac = "plant_capacity s / 1000 * (if time_resolution s = ''M'' then 366 * 24 else 24)"
  have c: "plant_capac s = Some ?capac"
    by (rule plant_capac_cases [OF assms(3)])
  let ?vd = "map (\<lambda>r. select_columns ?cols (zero_flagged_energy ?capac r)) ?kept"
  have m: "filter_outliers unresponsive_flag s n =
      Inr (?vd, s\<lparr>outlier_filtering := (outlier_filtering s)(filter_key s n \<mapsto> ?vd)\<rparr>)"
    using assms(1,2) filter_outliers_miss [of n s ?capac unresponsive_flag, OF _ _ _ _ c]
    by (simp add: in_range_def filter_key_def determine_valid_data_kept)
  have i: "map v_idx ?vd = map idx ?kept"
    by (simp add: select_columns_def comp_def)
  have e: "v_column (?vd ! j) ''energy_gwh'' =
      Some (if range_flag (energy_gwh (?kept ! j)) 0 ?capac then 0 else energy_gwh (?kept ! j))"
    if "j < length ?kept" for j
    using that
    by (simp add: v_column_select energy_in_valid_columns column_zero_flagged) (simp add: column_def)
  have p: "\<forall>j < length ?vd.
        \<forall>r. r = ?kept ! j \<longrightarrow>
          (?capac < energy_gwh r \<longrightarrow>
             range_flag (energy_gwh r) 0 ?capac
             \<and> v_column (?vd ! j) ''energy_gwh'' = Some 0)
        \<and> (0 \<le> energy_gwh r \<and> energy_gwh r \<le> ?capac \<longrightarrow>
             v_column (?vd ! j) ''energy_gwh'' = Some (energy_gwh r))"
  proof (intro allI impI conjI)
    fix j r assume a: "j < length ?vd" "r = ?kept ! j" "?capac < energy_gwh r"
    then show "range_flag (energy_gwh r) 0 ?capac"
      by (simp add: range_flag_def)
    from a(1) have "j < length ?kept" by simp
    from e [OF this] a(2,3) show "v_column (?vd ! j) ''energy_gwh'' = Some 0"
      by (simp add: range_flag_def)
  next
    fix j r assume a: "j < length ?vd" "r = ?kept ! j"
      "0 \<le> energy_gwh r \<and> energy_gwh r \<le> ?capac"
    from a(1) have "j < length ?kept" by simp
    from e [OF this] a(2,3) show "v_column (?vd ! j) ''energy_gwh'' = Some (energy_gwh r)"
      by (simp add: range_flag_def)
  qed
  show ?thesis
    by (rule exI [of _ ?vd],
        rule exI [of _ "s\<lparr>outlier_filtering := (outlier_filtering s)(filter_key s n \<mapsto> ?vd)\<rparr>"],
        rule exI [of _ ?capac])
       (intro conjI m i p refl)
qed

text \<open>
  Claim C3. After a call of the outlier filter for iteration \<open>n\<close>, and any further
  calls in between, a call for an iteration \<open>m\<close> with the same (reanalysis product,
  max-power-filter fraction, combined-loss threshold) triple returns the same result and
  leaves the object as it is; the result is the stored entry of the dictionary, and it
  comes out whatever the table, the plant capacity and the frozen-sensor helper are at
  that moment: nothing of the filtering is computed again.
\<close>

theorem filter_outliers_memoized:
  assumes first: "filter_outliers unresponsive_flag s n = Inr (valid_data, s1)"
    and between: "filter_outliers_calls unresponsive_flag s1 ks = Inr s2"
    and m: "in_range s m" and key: "filter_key s m = filter_key s n"
  shows "filter_outliers unresponsive_flag s2 m = Inr (valid_data, s2)
       \<and> outlier_filtering s2 (filter_key s2 m) = Some valid_data
       \<and> (\<forall>unresponsive_flag' df' capacity'.
            filter_outliers unresponsive_flag'
               (s2\<lparr>monthly_daily := df', plant_capacity := capacity'\<rparr>) m =
            Inr (valid_data, s2\<lparr>monthly_daily := df', plant_capacity := capacity'\<rparr>))"
proof -
  from filter_outliers_state [OF first] obtain f where
    f: "s1 = s\<lparr>outlier_filtering := f\<rparr>" "f (filter_key s n) = Some valid_data"
    by blast
  from filter_outliers_calls_state [OF between] obtain g where
    g: "s2 = s1\<lparr>outlier_filtering := g\<rparr>"
       "\<forall>key x. outlier_filtering s1 key = Some x \<longrightarrow> g key = Some x"
    by blast
  have r: "in_range s2 m" and k: "filter_key s2 m = filter_key s n"
    using f(1) g(1) m key by simp_all
  have "g (filter_key s n) = Some valid_data"
    using g(2) [rule_format, of "filter_key s n" valid_data] f by simp
  then have st: "outlier_filtering s2 (filter_key s2 m) = Some valid_data"
    using g(1) k by simp
  have "filter_outliers uf' (s2\<lparr>monthly_daily := df', plant_capacity := c'\<rparr>) m =
        Inr (valid_data, s2\<lparr>monthly_daily := df', plant_capacity := c'\<rparr>)" for uf' df' c'
    by (rule filter_outliers_stored [OF r st])
  moreover have "filter_outliers unresponsive_flag s2 m = Inr (valid_data, s2)"
    using r st by (simp add: filter_outliers_def in_range_def filter_key_def)
  ultimately show ?thesis
    using st by blast
qed

lemma filter_outliers_succeeds:
  assumes "in_range s k" and "time_resolution s = ''M'' \<or> time_resolution s = ''D''"
  shows "\<exists>v s'. filter_outliers uf s k = Inr (v, s')"
  using assms plant_capac_cases [OF assms(2)]
  by (auto simp: filter_outliers_def in_range_def Let_def split: option.splits)

lemma example_determined:
  "determine_valid_data example_unresponsive (example_analysis ''M'' example_filter_table)
     (4392 / 5) ''era'' 0.1 = example_valid_data"
  unfolding determine_valid_data_kept
  by (simp add: kept_rows_example example_valid_data_def example_valid_row_def
      select_columns_def valid_columns_def zero_flagged_energy_def range_flag_def
      example_filter_row_def column_def)

lemma example_in_range: "in_range (example_analysis res df) 0"
  "in_range (example_analysis res df) 1" "in_range (example_analysis res df) 2"
  by (simp_all add: in_range_def)

lemma example_keys:
  "filter_key (example_analysis res df) 0 = (''era'', 0.8, 0.1)"
  "filter_key (example_analysis res df) 1 = (''era'', 0.85, 0.2)"
  "filter_key (example_analysis res df) 2 = (''era'', 0.8, 0.1)"
  by (simp_all add: filter_key_def)

lemma example_first_call:
  "filter_outliers example_unresponsive (example_analysis ''M'' example_filter_table) 0 =
     Inr (example_valid_data, (example_analysis ''M'' example_filter_table)
       \<lparr>outlier_filtering := (\<lambda>k. None)((''era'', 0.8, 0.1) \<mapsto> example_valid_data)\<rparr>)"
proof -
  have c: "plant_capac (example_analysis ''M'' example_filter_table) = Some (4392 / 5)"
    by (simp add: plant_capac_def)
  show ?thesis
    using filter_outliers_miss [of 0 "example_analysis ''M'' example_filter_table" "4392 / 5"
        example_unresponsive, OF _ _ _ _ c]
    by (simp add: example_determined)
qed

theorem filter_outliers_cache_miss_witness:
  "in_range (example_analysis ''M'' example_filter_table) 0
   \<and> outlier_filtering (example_analysis ''M'' example_filter_table)
        (filter_key (example_analysis ''M'' example_filter_table) 0) = None
   \<and> time_resolution (example_analysis ''M'' example_filter_table) = ''M''
   \<and> (\<exists>valid_data s'.
        filter_outliers example_unresponsive (example_analysis ''M'' example_filter_table) 0
          = Inr (valid_data, s')
        \<and> valid_data = example_valid_data
        \<and> map v_idx valid_data =
            map idx [example_filter_row 1 9.7 0.02 8 False,
                     example_filter_row 2 (- 1) 0.02 7 False,
                     example_filter_row 3 900 0.02 7 False]
        \<and> v_column (valid_data ! 1) ''energy_gwh'' = Some 0)"
proof -
  let ?s = "example_analysis ''M'' example_filter_table"
  have h: "in_range ?s 0" "outlier_filtering ?s (filter_key ?s 0) = None"
    "time_resolution ?s = ''M'' \<or> time_resolution ?s = ''D''"
    by (simp_all add: example_in_range)
  from filter_outliers_cache_miss [OF h, of example_unresponsive]
  obtain vd s' where
    1: "filter_outliers example_unresponsive ?s 0 = Inr (vd, s')"
    and 2: "map v_idx vd = map idx (kept_rows example_unresponsive ''era'' 0.1 example_filter_table)"
    and 3: "\<forall>j < length vd.
        \<forall>r. r = kept_rows example_unresponsive ''era'' 0.1 example_filter_table ! j \<longrightarrow>
          (energy_gwh r < 0 \<longrightarrow> v_column (vd ! j) ''energy_gwh'' = Some 0)
        \<and> (\<exists>e. v_column (vd ! j) ''energy_gwh'' = Some e \<and> 0 \<le> e)
        \<and> (\<forall>c \<in> set (map fst (v_cols (vd ! j))).
              c \<noteq> ''energy_gwh'' \<longrightarrow> v_column (vd ! j) c = Some (column r c))"
    by auto
  from 1 have v: "vd = example_valid_data"
    by (simp add: example_first_call)
  have l: "1 < length vd"
    by (simp add: v example_valid_data_def)
  from 3 [rule_format, OF l refl] have 4: "v_column (vd ! 1) ''energy_gwh'' = Some 0"
    by (simp add: kept_rows_example example_filter_row_def)
  from 1 2 4 v h show ?thesis
    by (auto simp: kept_rows_example)
qed

theorem energy_above_capacity_zeroed_witness:
  "in_range (example_analysis ''M'' example_filter_table) 0
   \<and> outlier_filtering (example_analysis ''M'' example_filter_table)
        (filter_key (example_analysis ''M'' example_filter_table) 0) = None
   \<and> time_resolution (example_analysis ''M'' example_filter_table) = ''M''
   \<and> (\<exists>valid_data s'.
        filter_outliers example_unresponsive (example_analysis ''M'' example_filter_table) 0
          = Inr (valid_data, s')
        \<and> map v_idx valid_data =
            map idx [example_filter_row 1 9.7 0.02 8 False,
                     example_filter_row 2 (- 1) 0.02 7 False,
                     example_filter_row 3 900 0.02 7 False]
        \<and> (878.4 :: real) < energy_gwh (example_filter_row 3 900 0.02 7 False)
        \<and> range_flag (energy_gwh (example_filter_row 3 900 0.02 7 False)) 0 878.4
        \<and> v_column (valid_data ! 2) ''energy_gwh'' = Some 0
        \<and> v_column (valid_data ! 0) ''energy_gwh'' = Some 9.7)"
proof -
  let ?s = "example_analysis ''M'' example_filter_table"
  have h: "in_range ?s 0" "outlier_filtering ?s (filter_key ?s 0) = None"
    "time_resolution ?s = ''M'' \<or> time_resolution ?s = ''D''"
    by (simp_all add: example_in_range)
  from energy_above_capacity_zeroed [OF h, of example_unresponsive]
  obtain vd s' capac where
    1: "filter_outliers example_unresponsive ?s 0 = Inr (vd, s')"
    and c: "capac = plant_capacity ?s / 1000 * (if time_resolution ?s = ''M'' then 366 * 24 else 24)"
    and 2: "map v_idx vd = map idx (kept_rows example_unresponsive (mc_reanalysis_product ?s ! 0)
                  (mc_loss_threshold ?s ! 0) (monthly_daily ?s))"
    and 3: "\<forall>j < length vd.
        \<forall>r. r = kept_rows example_unresponsive (mc_reanalysis_product ?s ! 0)
                  (mc_loss_threshold ?s ! 0) (monthly_daily ?s) ! j \<longrightarrow>
          (capac < energy_gwh r \<longrightarrow>
             range_flag (energy_gwh r) 0 capac
             \<and> v_column (vd ! j) ''energy_gwh'' = Some 0)
        \<and> (0 \<le> energy_gwh r \<and> energy_gwh r \<le> capac \<longrightarrow>
             v_column (vd ! j) ''energy_gwh'' = Some (energy_gwh r))"
    by blast
  from c have c': "capac = 878.4" by simp
  have k: "kept_rows example_unresponsive (mc_reanalysis_product ?s ! 0)
                  (mc_loss_threshold ?s ! 0) (monthly_daily ?s) =
      [example_filter_row 1 9.7 0.02 8 False,
       example_filter_row 2 (- 1) 0.02 7 False,
       example_filter_row 3 900 0.02 7 False]"
    by (simp add: kept_rows_example)
  from arg_cong [OF 2, of length] have "length vd = 3"
    unfolding k by simp
  then have l: "2 < length vd" "0 < length vd" by simp_all
  have e: "energy_gwh (example_filter_row 3 900 0.02 7 False) = 900"
    "energy_gwh (example_filter_row 1 9.7 0.02 8 False) = 9.7"
    by (simp_all add: example_filter_row_def)
  from 3 [rule_format, OF l(1) refl] have 4:
    "range_flag (energy_gwh (example_filter_row 3 900 0.02 7 False)) 0 878.4"
    "v_column (vd ! 2) ''energy_gwh'' = Some 0"
    by (simp_all add: kept_rows_example example_filter_row_def c')
  from 3 [rule_format, OF l(2) refl] have 5: "v_column (vd ! 0) ''energy_gwh'' = Some 9.7"
    by (simp add: kept_rows_example example_filter_row_def c')
  from 1 2 [unfolded k] 4 5 h e show ?thesis
    by auto
qed

theorem filter_outliers_memoized_witness:
  "\<exists>s1 s2.
     filter_outliers example_unresponsive (example_analysis ''M'' example_filter_table) 0
       = Inr (example_valid_data, s1)
   \<and> filter_outliers_calls example_unresponsive s1 [1] = Inr s2
   \<and> in_range (example_analysis ''M'' example_filter_table) 2
   \<and> filter_key (example_analysis ''M'' example_filter_table) 2
       = filter_key (example_analysis ''M'' example_filter_table) 0
   \<and> filter_outliers example_unresponsive s2 2 = Inr (example_valid_data, s2)
   \<and> filter_outliers (\<lambda>col threshold i. True)
        (s2\<lparr>monthly_daily := [], plant_capacity := 0\<rparr>) 2
       = Inr (example_valid_data, s2\<lparr>monthly_daily := [], plant_capacity := 0\<rparr>)"
proof -
  let ?s = "example_analysis ''M'' example_filter_table"
  let ?s1 = "?s\<lparr>outlier_filtering := (\<lambda>k. None)((''era'', 0.8, 0.1) \<mapsto> example_valid_data)\<rparr>"
  have 1: "filter_outliers example_unresponsive ?s 0 = Inr (example_valid_data, ?s1)"
    by (rule example_first_call)
  have "in_range ?s1 1" "time_resolution ?s1 = ''M'' \<or> time_resolution ?s1 = ''D''"
    by (simp_all add: in_range_def)
  from filter_outliers_succeeds [OF this, of example_unresponsive]
  obtain v s2 where "filter_outliers example_unresponsive ?s1 1 = Inr (v, s2)"
    by blast
  then have 2: "filter_outliers_calls example_unresponsive ?s1 [1] = Inr s2"
    by simp
  have 3: "in_range ?s 2" and 4: "filter_key ?s 2 = filter_key ?s 0"
    by (simp_all add: example_in_range example_keys)
  from filter_outliers_memoized [OF 1 2 3 4] 1 2 3 4 show ?thesis
    by blast
qed

section \<open>Monte Carlo inputs: the draws and their bounds\<close>

lemma and_then_Inr: "and_then m f = Inr y \<longleftrightarrow> (\<exists>x. m = Inr x \<and> f x = Inr y)"
  by (cases m) (simp_all add: and_then_def)

lemma randint_succeeds:
  "randint rnd low high n = Inr xs \<Longrightarrow> \<exists>ys. randint rnd' low high n = Inr ys"
  by (auto simp: randint_def Let_def split: if_splits)

lemma upt_0_3: "[0..<3] = [0, 1, 2::nat]"
  by code_simp

lemma replicate_three: "replicate 3 x = [x, x, x]"
  unfolding numeral_3_eq_3 by simp

text \<open>
  The rounding of the float64 model: the exponent is that of the leading bit, and the
  rounded number is within half a unit in the last place of the exact one.
\<close>

lemma pow2_pos: "0 < pow2 k"
  by (simp add: pow2_def)

lemma pow2_nonpos: "k \<le> 0 \<Longrightarrow> pow2 k = 1 / 2 ^ nat (- k)"
  by (cases "k = 0") (simp_all add: pow2_def)

lemma float64_exponent_bounds:
  assumes "x \<noteq> 0"
  shows "pow2 (float64_exponent x) \<le> \<bar>x\<bar> \<and> \<bar>x\<bar> < pow2 (float64_exponent x + 1)"
proof (cases "1 \<le> \<bar>x\<bar>")
  case True
  define m where "m = \<lfloor>\<bar>x\<bar>\<rfloor>"
  have m: "0 < m" using True by (simp add: m_def)
  from bitlen_bounds [OF m] have lo: "2 ^ nat (bitlen m - 1) \<le> m" and hi: "m < 2 ^ nat (bitlen m)"
    by simp_all
  have b: "1 \<le> bitlen m"
    using m bitlen_eq_zero_iff [of m] bitlen_nonneg [of m] by linarith
  have e: "float64_exponent x = bitlen m - 1"
    using True by (simp add: float64_exponent_def m_def)
  have "real_of_int (2 ^ nat (bitlen m - 1)) \<le> real_of_int m"
    using lo by (simp only: of_int_le_iff)
  then have "2 ^ nat (bitlen m - 1) \<le> real_of_int m"
    by (simp only: of_int_power of_int_numeral)
  moreover have "real_of_int m \<le> \<bar>x\<bar>" by (simp add: m_def)
  ultimately have "2 ^ nat (bitlen m - 1) \<le> \<bar>x\<bar>" by (rule order_trans)
  then have 1: "pow2 (bitlen m - 1) \<le> \<bar>x\<bar>"
    using b by (simp add: pow2_def)
  from hi have "m + 1 \<le> 2 ^ nat (bitlen m)" by simp
  then have "real_of_int (m + 1) \<le> real_of_int (2 ^ nat (bitlen m))"
    by (simp only: of_int_le_iff)
  then have "real_of_int (m + 1) \<le> 2 ^ nat (bitlen m)"
    by (simp only: of_int_power of_int_numeral)
  moreover have "\<bar>x\<bar> < real_of_int (m + 1)" by (simp add: m_def)
  ultimately have "\<bar>x\<bar> < 2 ^ nat (bitlen m)" by (rule less_le_trans [rotated])
  then have 2: "\<bar>x\<bar> < pow2 (bitlen m - 1 + 1)"
    using b by (simp add: pow2_def)
  from 1 2 show ?thesis by (simp add: e)
next
  case False
  define c where "c = \<lceil>1 / \<bar>x\<bar>\<rceil>"
  define k where "k = bitlen (c - 1)"
  from False assms have y: "1 < 1 / \<bar>x\<bar>" by simp
  then have c: "0 < c - 1" unfolding c_def by linarith
  from bitlen_bounds [OF c] have lo: "2 ^ nat (k - 1) \<le> c - 1" and hi: "c - 1 < 2 ^ nat k"
    by (simp_all add: k_def)
  have b: "1 \<le> k"
    using c bitlen_eq_zero_iff [of "c - 1"] bitlen_nonneg [of "c - 1"] unfolding k_def by linarith
  have e: "float64_exponent x = - k"
    using False by (simp add: float64_exponent_def c_def k_def)
  from hi have "c \<le> 2 ^ nat k" by simp
  then have "real_of_int c \<le> real_of_int (2 ^ nat k)" by (simp only: of_int_le_iff)
  then have "real_of_int c \<le> 2 ^ nat k" by (simp only: of_int_power of_int_numeral)
  moreover have "1 / \<bar>x\<bar> \<le> real_of_int c" by (simp add: c_def)
  ultimately have "1 / \<bar>x\<bar> \<le> 2 ^ nat k" by (rule order_trans [rotated])
  then have "1 / 2 ^ nat k \<le> \<bar>x\<bar>"
    using assms by (simp add: field_simps)
  then have 1: "pow2 (- k) \<le> \<bar>x\<bar>"
    using b by (simp add: pow2_nonpos)
  from lo have "real_of_int (2 ^ nat (k - 1)) \<le> real_of_int (c - 1)" by (simp only: of_int_le_iff)
  then have "2 ^ nat (k - 1) \<le> real_of_int (c - 1)" by (simp only: of_int_power of_int_numeral)
  moreover have "real_of_int (c - 1) < 1 / \<bar>x\<bar>" unfolding c_def by linarith
  ultimately have "2 ^ nat (k - 1) < 1 / \<bar>x\<bar>" by (rule le_less_trans)
  then have "\<bar>x\<bar> < 1 / 2 ^ nat (k - 1)"
    using assms by (simp add: field_simps)
  moreover have "pow2 (- k + 1) = 1 / 2 ^ nat (k - 1)"
    using b pow2_nonpos [of "- k + 1"] by simp
  ultimately have 2: "\<bar>x\<bar> < pow2 (- k + 1)" by simp
  from 1 2 show ?thesis by (simp add: e)
qed

lemma round_half_even_close: "\<bar>real_of_int (round_half_even x) - x\<bar> \<le> 1 / 2"
  by (auto simp: round_half_even_def Let_def)

lemma float64_round_close:
  assumes "x \<noteq> 0"
  shows "\<bar>float64_round x - x\<bar> \<le> pow2 (float64_exponent x - 52) / 2"
proof -
  define u where "u = pow2 (float64_exponent x - 52)"
  define m where "m = real_of_int (round_half_even (x / u))"
  have u: "0 < u" unfolding u_def by (rule pow2_pos)
  have "\<bar>m - x / u\<bar> \<le> 1 / 2"
    unfolding m_def by (rule round_half_even_close)
  then have "\<bar>m - x / u\<bar> * u \<le> 1 / 2 * u"
    using u by (simp add: mult_right_mono)
  moreover have "\<bar>m - x / u\<bar> * u = \<bar>(m - x / u) * u\<bar>"
    using u by (simp add: abs_mult)
  moreover have "(m - x / u) * u = m * u - x"
    using u by (simp add: field_simps)
  ultimately have "\<bar>m * u - x\<bar> \<le> u / 2" by simp
  then show ?thesis
    using assms by (simp add: float64_round_def Let_def u_def m_def)
qed

lemma float64_round_eq:
  assumes "x \<noteq> 0" and "float64_exponent x = e" and "pow2 (e - 52) = u"
    and "round_half_even (x / u) = m"
  shows "float64_round x = real_of_int m * u"
  using assms by (simp add: float64_round_def Let_def)

lemma bitlen_values:
  "bitlen 1 = 1" "bitlen 21 = 5" "bitlen 56 = 6" "bitlen 57 = 6" "bitlen 100 = 7"
  "bitlen 300 = 9"
  by code_simp+

lemma float64_056: "float64_round 0.56 = 1261007895663739 / 2251799813685248"
proof -
  have "float64_round 0.56 = real_of_int 5044031582654956 * (1 / 9007199254740992)"
    by (rule float64_round_eq [where e = "- 1"])
       (simp_all add: float64_exponent_def bitlen_values pow2_def round_half_even_def Let_def)
  then show ?thesis by simp
qed

lemma float64_057: "float64_round 0.57 = 5134103575202365 / 9007199254740992"
proof -
  have "float64_round 0.57 = real_of_int 5134103575202365 * (1 / 9007199254740992)"
    by (rule float64_round_eq [where e = "- 1"])
       (simp_all add: float64_exponent_def bitlen_values pow2_def round_half_even_def Let_def)
  then show ?thesis by simp
qed

lemma float64_058: "float64_round 0.58 = 5224175567749775 / 9007199254740992"
proof -
  have "float64_round 0.58 = real_of_int 5224175567749775 * (1 / 9007199254740992)"
    by (rule float64_round_eq [where e = "- 1"])
       (simp_all add: float64_exponent_def bitlen_values pow2_def round_half_even_def Let_def)
  then show ?thesis by simp
qed

lemma float64_057_times_100:
  "float64_mul (float64_round 0.57) 100 = 8022036836253695 / 140737488355328"
proof -
  have "float64_round (5134103575202365 / 9007199254740992 * 100) =
      real_of_int 8022036836253695 * (1 / 140737488355328)"
    by (rule float64_round_eq [where e = 5])
       (simp_all add: float64_exponent_def bitlen_values pow2_def round_half_even_def Let_def)
  then show ?thesis unfolding float64_mul_def float64_057 by simp
qed

lemma float64_058_times_100:
  "float64_mul (float64_round 0.58) 100 = 8162774324609023 / 140737488355328"
proof -
  have "float64_round (5224175567749775 / 9007199254740992 * 100) =
      real_of_int 8162774324609023 * (1 / 140737488355328)"
    by (rule float64_round_eq [where e = 5])
       (simp_all add: float64_exponent_def bitlen_values pow2_def round_half_even_def Let_def)
  then show ?thesis unfolding float64_mul_def float64_058 by simp
qed

lemma py_int_057_times_100: "py_int (float64_mul (float64_round 0.57) 100) = 56"
  unfolding float64_057_times_100 py_int_def by simp

lemma py_int_058_times_100: "py_int (float64_mul (float64_round 0.58) 100) = 57"
  unfolding float64_058_times_100 py_int_def by simp

lemma float64_whole:
  "float64_round 21 = 21" "float64_round 100 = 100" "float64_round 300 = 300"
proof -
  have "float64_round 21 = real_of_int 5910974510923776 * (1 / 281474976710656)"
    by (rule float64_round_eq [where e = 4])
       (simp_all add: float64_exponent_def bitlen_values pow2_def round_half_even_def Let_def)
  then show "float64_round 21 = 21" by simp
  have "float64_round 100 = real_of_int 7036874417766400 * (1 / 70368744177664)"
    by (rule float64_round_eq [where e = 6])
       (simp_all add: float64_exponent_def bitlen_values pow2_def round_half_even_def Let_def)
  then show "float64_round 100 = 100" by simp
  have "float64_round 300 = real_of_int 5277655813324800 * (1 / 17592186044416)"
    by (rule float64_round_eq [where e = 8])
       (simp_all add: float64_exponent_def bitlen_values pow2_def round_half_even_def Let_def)
  then show "float64_round 300 = 300" by simp
qed

text \<open>
  Claim C7 says that every max-power-filter draw lies within the configured range. For
  the range (0.57, 0.58) the program does otherwise. The float64 product
  \<^verbatim>\<open>0.57 * 100\<close> is 56.99999999999999 and \<^verbatim>\<open>0.58 * 100\<close> is 57.99999999999999;
  \<^verbatim>\<open>np.random.randint\<close> truncates them to 56 and 57, so that, whatever the random
  numbers, each of the draws is \<^verbatim>\<open>56 / 100.\<close>, the float64 number 0.56, which is below
  the lower bound 0.57.
\<close>

theorem max_power_filter_draws_below_bound:
  "(case setup_monte_carlo_inputs e
          ((example_analysis ''M'' [])
             \<lparr>uncertainty_max_power_filter := (float64_round 0.57, float64_round 0.58)\<rparr>)
    of Inl err \<Rightarrow> False
     | Inr s' \<Rightarrow>
         mc_max_power_filter s' = [float64_round 0.56, float64_round 0.56, float64_round 0.56])
   \<and> py_int (float64_mul (float64_round 0.57) 100) = 56
   \<and> py_int (float64_mul (float64_round 0.58) 100) = 57
   \<and> float64_round 0.56 < float64_round 0.57"
proof -
  let ?s = "(example_analysis ''M'' [])
             \<lparr>uncertainty_max_power_filter := (float64_round 0.57, float64_round 0.58)\<rparr>"
  have u: "uncertainty_max_power_filter ?s = (float64_round 0.57, float64_round 0.58)"
    "uncertainty_wind_bin_thresh ?s = (1, 3)" "uncertainty_windiness ?s = (10, 20)"
    "uncertainty_loss_max ?s = (10, 20)" "uncertainty_meter ?s = 0.005"
    "uncertainty_losses ?s = 0.05" "num_sim ?s = 3" "reanal_subset ?s = [''era'']"
    by (simp_all add: example_analysis_def)
  have b: "py_int (float64_mul 1 100) = 100" "py_int (float64_mul 3 100) = 300"
    "py_int 10 = 10" "py_int (float64_add 20 1) = 21"
    by (simp_all add: float64_mul_def float64_add_def float64_whole py_int_def)
  have d: "float64_div 56 100 = float64_round 0.56"
    by (simp add: float64_div_def)
  have 1: "case setup_monte_carlo_inputs e ?s of Inl err \<Rightarrow> False
     | Inr s' \<Rightarrow>
         mc_max_power_filter s' = [float64_round 0.56, float64_round 0.56, float64_round 0.56]"
    unfolding setup_monte_carlo_inputs_def u fst_conv snd_conv randint_def
      py_int_057_times_100 py_int_058_times_100 b Let_def
    by (simp add: and_then_def normal_def random_sample_def upt_0_3 d)
  have 2: "float64_round 0.56 < float64_round 0.57"
    unfolding float64_056 float64_057 by simp
  from 1 2 py_int_057_times_100 py_int_058_times_100 show ?thesis
    by (intro conjI)
qed

section \<open>The simulation loop: AEP of every simulation, and the unused draws\<close>

lemma set_regression_data_state:
  assumes "set_regression_data eng s n = Inr (x, s')"
  shows "\<exists>f. s' = s\<lparr>outlier_filtering := f\<rparr>"
proof -
  from assms obtain v where "filter_outliers (ext_unresponsive_flag eng) s n = Inr (v, s')"
    by (auto simp: set_regression_data_def and_then_Inr)
  from filter_outliers_state [OF this] show ?thesis by blast
qed

lemma run_regression_state:
  assumes "run_regression eng s n = Inr (x, s')"
  shows "\<exists>f. s' = s\<lparr>outlier_filtering := f\<rparr>"
proof -
  from assms obtain d where "set_regression_data eng s n = Inr (d, s')"
    by (auto simp: run_regression_def and_then_Inr Let_def split: if_splits)
  from set_regression_data_state [OF this] show ?thesis .
qed

lemma long_term_gross_state:
  assumes "long_term_gross eng s n = Inr (x, s')"
  shows "\<exists>f. s' = s\<lparr>outlier_filtering := f\<rparr>"
proof -
  from assms obtain d where "run_regression eng s n = Inr (d, s')"
    by (auto simp: long_term_gross_def and_then_Inr split: if_splits)
  from run_regression_state [OF this] show ?thesis .
qed

lemma simulate_Inr:
  assumes "simulate eng s n = Inr (row, s')"
  shows "\<exists>gross_lt gross_por avail_annual curt_annual.
      long_term_gross eng s n = Inr ((gross_lt, gross_por), s')
    \<and> long_term_losses s = Some (avail_annual, curt_annual)
    \<and> n < length (mc_loss_fraction s)
    \<and> avail_pct row = avail_annual * mc_loss_fraction s ! n
    \<and> curt_pct row = curt_annual * mc_loss_fraction s ! n
    \<and> aep_GWh row = sum_list gross_lt * (1 - avail_annual * mc_loss_fraction s ! n)
    \<and> lt_por_ratio row = sum_list gross_lt / sum_list gross_por
    \<and> (\<exists>f. s' = s\<lparr>outlier_filtering := f\<rparr>)"
proof -
  from assms obtain gross_lt gross_por a c where
    g: "long_term_gross eng s n = Inr ((gross_lt, gross_por), s')"
    and l: "sample_long_term_losses s' n = Inr (a, c)"
    and r: "row = \<lparr> aep_GWh = sum_list gross_lt * (1 - a), avail_pct = a, curt_pct = c,
              lt_por_ratio = sum_list gross_lt / sum_list gross_por \<rparr>"
    by (auto simp: simulate_def and_then_Inr)
  from long_term_gross_state [OF g] obtain f where f: "s' = s\<lparr>outlier_filtering := f\<rparr>"
    by blast
  from l f obtain aa ca where "long_term_losses s = Some (aa, ca)"
    "n < length (mc_loss_fraction s)" "a = aa * mc_loss_fraction s ! n"
    "c = ca * mc_loss_fraction s ! n"
    by (auto simp: sample_long_term_losses_def and_then_Inr at_index_def
        split: option.splits if_splits)
  with g r f show ?thesis by auto
qed

lemma simulations_rows:
  assumes "simulations eng s0 ns = Inr (results, s')"
    and "\<exists>f. s0 = s\<lparr>outlier_filtering := f\<rparr>"
  shows "length results = length ns
   \<and> (\<forall>i<length ns. \<exists>s_n gross_lt gross_por s_n' avail_annual curt_annual.
        simulations eng s0 (take i ns) = Inr (take i results, s_n)
      \<and> (\<exists>f. s_n = s\<lparr>outlier_filtering := f\<rparr>)
      \<and> long_term_gross eng s_n (ns ! i) = Inr ((gross_lt, gross_por), s_n')
      \<and> long_term_losses s = Some (avail_annual, curt_annual)
      \<and> ns ! i < length (mc_loss_fraction s)
      \<and> avail_pct (results ! i) = avail_annual * mc_loss_fraction s ! (ns ! i)
      \<and> curt_pct (results ! i) = curt_annual * mc_loss_fraction s ! (ns ! i)
      \<and> aep_GWh (results ! i)
          = sum_list gross_lt * (1 - avail_annual * mc_loss_fraction s ! (ns ! i)))"
  using assms
proof (induction ns arbitrary: s0 results)
  case Nil
  then show ?case by simp
next
  case (Cons n ns)
  from Cons.prems(1) obtain row s1 rows where
    1: "simulate eng s0 n = Inr (row, s1)"
    and 2: "simulations eng s1 ns = Inr (rows, s')"
    and r: "results = row # rows"
    by (auto simp: and_then_Inr)
  from Cons.prems(2) obtain f0 where f0: "s0 = s\<lparr>outlier_filtering := f0\<rparr>" by blast
  from simulate_Inr [OF 1] obtain gross_lt gross_por a c f where
    g: "long_term_gross eng s0 n = Inr ((gross_lt, gross_por), s1)"
    and l: "long_term_losses s0 = Some (a, c)" "n < length (mc_loss_fraction s0)"
    and v: "avail_pct row = a * mc_loss_fraction s0 ! n"
       "curt_pct row = c * mc_loss_fraction s0 ! n"
       "aep_GWh row = sum_list gross_lt * (1 - a * mc_loss_fraction s0 ! n)"
    and f: "s1 = s0\<lparr>outlier_filtering := f\<rparr>"
    by blast
  from f f0 have "\<exists>f. s1 = s\<lparr>outlier_filtering := f\<rparr>" by auto
  from Cons.IH [OF 2 this] have
    len: "length rows = length ns"
    and ih: "\<forall>i<length ns. \<exists>s_n gross_lt gross_por s_n' avail_annual curt_annual.
        simulations eng s1 (take i ns) = Inr (take i rows, s_n)
      \<and> (\<exists>f. s_n = s\<lparr>outlier_filtering := f\<rparr>)
      \<and> long_term_gross eng s_n (ns ! i) = Inr ((gross_lt, gross_por), s_n')
      \<and> long_term_losses s = Some (avail_annual, curt_annual)
      \<and> ns ! i < length (mc_loss_fraction s)
      \<and> avail_pct (rows ! i) = avail_annual * mc_loss_fraction s ! (ns ! i)
      \<and> curt_pct (rows ! i) = curt_annual * mc_loss_fraction s ! (ns ! i)
      \<and> aep_GWh (rows ! i)
          = sum_list gross_lt * (1 - avail_annual * mc_loss_fraction s ! (ns ! i))"
    by blast+
  have step: "simulations eng s0 (n # ms) = Inr (row # ys, t)"
    if "simulations eng s1 ms = Inr (ys, t)" for ms ys t
    using that 1 by (simp add: and_then_def)
  have h: "\<exists>s_n gross_lt gross_por s_n' avail_annual curt_annual.
        simulations eng s0 [] = Inr ([], s_n)
      \<and> (\<exists>f. s_n = s\<lparr>outlier_filtering := f\<rparr>)
      \<and> long_term_gross eng s_n n = Inr ((gross_lt, gross_por), s_n')
      \<and> long_term_losses s = Some (avail_annual, curt_annual)
      \<and> n < length (mc_loss_fraction s)
      \<and> avail_pct row = avail_annual * mc_loss_fraction s ! n
      \<and> curt_pct row = curt_annual * mc_loss_fraction s ! n
      \<and> aep_GWh row = sum_list gross_lt * (1 - avail_annual * mc_loss_fraction s ! n)"
    using g l v f0
    by (intro exI [of _ s0] exI [of _ gross_lt] exI [of _ gross_por] exI [of _ s1]
        exI [of _ a] exI [of _ c]) auto
  have ih': "\<exists>s_n gross_lt gross_por s_n' avail_annual curt_annual.
        simulations eng s0 (n # take j ns) = Inr (row # take j rows, s_n)
      \<and> (\<exists>f. s_n = s\<lparr>outlier_filtering := f\<rparr>)
      \<and> long_term_gross eng s_n (ns ! j) = Inr ((gross_lt, gross_por), s_n')
      \<and> long_term_losses s = Some (avail_annual, curt_annual)
      \<and> ns ! j < length (mc_loss_fraction s)
      \<and> avail_pct (rows ! j) = avail_annual * mc_loss_fraction s ! (ns ! j)
      \<and> curt_pct (rows ! j) = curt_annual * mc_loss_fraction s ! (ns ! j)
      \<and> aep_GWh (rows ! j)
          = sum_list gross_lt * (1 - avail_annual * mc_loss_fraction s ! (ns ! j))"
    if "j < length ns" for j
  proof -
    from ih that obtain s_n gross_lt gross_por s_n' avail_annual curt_annual where
      a: "simulations eng s1 (take j ns) = Inr (take j rows, s_n)"
      and b: "(\<exists>f. s_n = s\<lparr>outlier_filtering := f\<rparr>)
      \<and> long_term_gross eng s_n (ns ! j) = Inr ((gross_lt, gross_por), s_n')
      \<and> long_term_losses s = Some (avail_annual, curt_annual)
      \<and> ns ! j < length (mc_loss_fraction s)
      \<and> avail_pct (rows ! j) = avail_annual * mc_loss_fraction s ! (ns ! j)
      \<and> curt_pct (rows ! j) = curt_annual * mc_loss_fraction s ! (ns ! j)
      \<and> aep_GWh (rows ! j)
          = sum_list gross_lt * (1 - avail_annual * mc_loss_fraction s ! (ns ! j))"
      by blast
    from step [OF a] b show ?thesis by blast
  qed
  show ?case
  proof (intro conjI allI impI)
    show "length results = length (n # ns)" using r len by simp
  next
    fix i assume i: "i < length (n # ns)"
    show "\<exists>s_n gross_lt gross_por s_n' avail_annual curt_annual.
        simulations eng s0 (take i (n # ns)) = Inr (take i results, s_n)
      \<and> (\<exists>f. s_n = s\<lparr>outlier_filtering := f\<rparr>)
      \<and> long_term_gross eng s_n ((n # ns) ! i) = Inr ((gross_lt, gross_por), s_n')
      \<and> long_term_losses s = Some (avail_annual, curt_annual)
      \<and> (n # ns) ! i < length (mc_loss_fraction s)
      \<and> avail_pct (results ! i) = avail_annual * mc_loss_fraction s ! ((n # ns) ! i)
      \<and> curt_pct (results ! i) = curt_annual * mc_loss_fraction s ! ((n # ns) ! i)
      \<and> aep_GWh (results ! i)
          = sum_list gross_lt * (1 - avail_annual * mc_loss_fraction s ! ((n # ns) ! i))"
    proof (cases i)
      case 0
      with h r show ?thesis by simp
    next
      case (Suc j)
      with i have "j < length ns" by simp
      from ih' [OF this] Suc r show ?thesis by simp
    qed
  qed
qed

text \<open>
  Claim C1. When the simulation loop returns, it has one result row per simulation
  index \<open>n\<close>, and in row \<open>n\<close> the availability and curtailment losses are the two
  long-term baseline scalars, each times the loss-bias draw of simulation \<open>n\<close>, and the
  AEP is the sum over the year of the long-term gross energy of iteration \<open>n\<close> times one
  minus the availability loss; the curtailment loss does not occur in the AEP. The gross
  energy is the one computed on the object \<open>s_n\<close> that the loop has reached after the
  iterations before \<open>n\<close>, which have given the first \<open>n\<close> rows (it differs from the
  initial object by its memo dictionary only).
\<close>

theorem aep_of_every_simulation:
  assumes "run_AEP_monte_carlo eng s = Inr (results, s')"
  shows "length results = num_sim s
   \<and> (\<forall>n<num_sim s. \<exists>s_n gross_lt gross_por s_n' avail_annual curt_annual.
        simulations eng s [0..<n] = Inr (take n results, s_n)
      \<and> (\<exists>f. s_n = s\<lparr>outlier_filtering := f\<rparr>)
      \<and> long_term_gross eng s_n n = Inr ((gross_lt, gross_por), s_n')
      \<and> long_term_losses s = Some (avail_annual, curt_annual)
      \<and> n < length (mc_loss_fraction s)
      \<and> avail_pct (results ! n) = avail_annual * mc_loss_fraction s ! n
      \<and> curt_pct (results ! n) = curt_annual * mc_loss_fraction s ! n
      \<and> aep_GWh (results ! n)
          = sum_list gross_lt * (1 - avail_annual * mc_loss_fraction s ! n))"
proof -
  have "\<exists>f. s = s\<lparr>outlier_filtering := f\<rparr>"
    by (rule exI [of _ "outlier_filtering s"]) simp
  from simulations_rows [OF assms [unfolded run_AEP_monte_carlo_def] this]
  show ?thesis by (simp add: take_upt)
qed

lemma and_then_with_wind_bin_thresh:
  assumes "m' = with_wind_bin_thresh w m"
    and "\<And>y s. f' (y, s\<lparr>mc_wind_bin_thresh := w\<rparr>) = with_wind_bin_thresh w (f (y, s))"
  shows "and_then m' f' = with_wind_bin_thresh w (and_then m f)"
  using assms by (cases m) (auto simp: and_then_def with_wind_bin_thresh_def)

lemma filter_outliers_wind_bin_thresh:
  "filter_outliers uf (s\<lparr>mc_wind_bin_thresh := w\<rparr>) n
     = with_wind_bin_thresh w (filter_outliers uf s n)"
  by (simp add: filter_outliers_def with_wind_bin_thresh_def determine_valid_data_def
      plant_capac_def Let_def cong: if_cong split: option.splits)

lemma regression_row_wind_bin_thresh:
  "regression_row (s\<lparr>mc_wind_bin_thresh := w\<rparr>) n = regression_row s n"
  by (rule ext) (simp add: regression_row_def cong: if_cong)

lemma por_inputs_wind_bin_thresh:
  "por_inputs (s\<lparr>mc_wind_bin_thresh := w\<rparr>) reanal = por_inputs s reanal"
  by (rule ext) (simp add: por_inputs_def)

lemma set_regression_data_wind_bin_thresh:
  "set_regression_data eng (s\<lparr>mc_wind_bin_thresh := w\<rparr>) n
     = with_wind_bin_thresh w (set_regression_data eng s n)"
  unfolding set_regression_data_def
  by (rule and_then_with_wind_bin_thresh [OF filter_outliers_wind_bin_thresh])
     (auto simp: regression_row_wind_bin_thresh and_then_def with_wind_bin_thresh_def
       split: sum.splits)

lemma run_regression_wind_bin_thresh:
  "run_regression eng (s\<lparr>mc_wind_bin_thresh := w\<rparr>) n
     = with_wind_bin_thresh w (run_regression eng s n)"
  unfolding run_regression_def
  by (rule and_then_with_wind_bin_thresh [OF set_regression_data_wind_bin_thresh])
     (auto simp: and_then_def with_wind_bin_thresh_def Let_def split: sum.splits)

lemma linear_gross_wind_bin_thresh:
  "linear_gross (s\<lparr>mc_wind_bin_thresh := w\<rparr>) reanal inputs fitted
     = linear_gross s reanal inputs fitted"
  by (simp add: linear_gross_def undo_normalization_def num_days_lt_def
      por_inputs_wind_bin_thresh cong: fit.case_cong if_cong)

lemma fitted_gross_wind_bin_thresh:
  "fitted_gross (s\<lparr>mc_wind_bin_thresh := w\<rparr>) reanal inputs fitted
     = fitted_gross s reanal inputs fitted"
  by (simp add: fitted_gross_def por_inputs_wind_bin_thresh cong: fit.case_cong if_cong)

lemma long_term_gross_wind_bin_thresh:
  "long_term_gross eng (s\<lparr>mc_wind_bin_thresh := w\<rparr>) n
     = with_wind_bin_thresh w (long_term_gross eng s n)"
proof (cases "reg_model s = ''lin''")
  case True
  then show ?thesis
    unfolding long_term_gross_def
    apply (simp only: if_True)
    apply simp
    apply (rule and_then_with_wind_bin_thresh [OF run_regression_wind_bin_thresh])
    apply (auto simp: and_then_def with_wind_bin_thresh_def linear_gross_wind_bin_thresh
        split: sum.splits)
    done
next
  case False
  have r: "and_then (run_regression eng (s\<lparr>mc_wind_bin_thresh := w\<rparr>) n)
         (\<lambda>(fitted, s'). and_then (fitted_gross s' reanal inputs fitted) (\<lambda>gross. Inr (gross, s')))
      = with_wind_bin_thresh w (and_then (run_regression eng s n)
         (\<lambda>(fitted, s'). and_then (fitted_gross s' reanal inputs fitted) (\<lambda>gross. Inr (gross, s'))))"
    for reanal inputs
    by (rule and_then_with_wind_bin_thresh [OF run_regression_wind_bin_thresh])
       (auto simp: and_then_def with_wind_bin_thresh_def fitted_gross_wind_bin_thresh
         split: sum.splits)
  from False show ?thesis
    unfolding long_term_gross_def
    by (simp add: r) (auto simp: and_then_def with_wind_bin_thresh_def split: sum.splits)
qed

lemma sample_long_term_losses_wind_bin_thresh:
  "sample_long_term_losses (s\<lparr>mc_wind_bin_thresh := w\<rparr>) n = sample_long_term_losses s n"
  by (simp add: sample_long_term_losses_def cong: option.case_cong)

lemma simulate_wind_bin_thresh:
  "simulate eng (s\<lparr>mc_wind_bin_thresh := w\<rparr>) n = with_wind_bin_thresh w (simulate eng s n)"
  unfolding simulate_def
  by (rule and_then_with_wind_bin_thresh [OF long_term_gross_wind_bin_thresh])
     (auto simp: and_then_def with_wind_bin_thresh_def sample_long_term_losses_wind_bin_thresh
       split: sum.splits)

lemma simulations_wind_bin_thresh:
  "simulations eng (s\<lparr>mc_wind_bin_thresh := w\<rparr>) ns
     = with_wind_bin_thresh w (simulations eng s ns)"
proof (induction ns arbitrary: s)
  case Nil
  then show ?case by (simp add: with_wind_bin_thresh_def)
next
  case (Cons n ns)
  show ?case
    unfolding simulations.simps
    by (rule and_then_with_wind_bin_thresh [OF simulate_wind_bin_thresh])
       (auto simp: Cons.IH and_then_def with_wind_bin_thresh_def split: sum.splits)
qed

lemma run_AEP_wind_bin_thresh:
  "run_AEP_monte_carlo eng (s\<lparr>mc_wind_bin_thresh := w\<rparr>)
     = with_wind_bin_thresh w (run_AEP_monte_carlo eng s)"
  by (simp add: run_AEP_monte_carlo_def simulations_wind_bin_thresh)

lemma results_of_with_wind_bin_thresh [simp]:
  "results_of (with_wind_bin_thresh w x) = results_of x"
  by (auto simp: results_of_def with_wind_bin_thresh_def split: sum.splits)

lemma randint_entropy:
  "randint r low high n = Inl err \<Longrightarrow> randint r' low high n = Inl err"
  by (auto simp: randint_def Let_def split: if_splits)

lemma setup_wind_bin_entropy:
  "\<exists>w. setup_monte_carlo_inputs (e\<lparr>rand_wind_bin_thresh := r\<rparr>) s =
     (case setup_monte_carlo_inputs e s of
        Inl err \<Rightarrow> Inl err
      | Inr s2 \<Rightarrow> Inr (s2\<lparr>mc_wind_bin_thresh := w\<rparr>))"
proof (cases "randint (rand_wind_bin_thresh e)
                (float64_mul (fst (uncertainty_wind_bin_thresh s)) 100)
                (float64_mul (snd (uncertainty_wind_bin_thresh s)) 100) (num_sim s)")
  case (Inl err)
  from randint_entropy [OF this, of r] Inl show ?thesis
    by (auto simp: setup_monte_carlo_inputs_def and_then_def split: sum.splits)
next
  case (Inr wb)
  from randint_succeeds [OF this, of r] obtain wb' where
    w: "randint r (float64_mul (fst (uncertainty_wind_bin_thresh s)) 100)
          (float64_mul (snd (uncertainty_wind_bin_thresh s)) 100) (num_sim s) = Inr wb'"
    by blast
  show ?thesis
    by (rule exI [of _ "map (\<lambda>k. float64_div (real_of_int k) 100) wb'"])
       (simp add: setup_monte_carlo_inputs_def and_then_def Inr w split: sum.splits)
qed

text \<open>
  Claim C9. The wind-bin-threshold draws have no effect on any output. Replacing the
  array of draws in the object changes neither the exception nor the result table of
  the simulation loop (nor the object it leaves, but for that array); and two full runs
  that differ in the entropy of the wind-bin-threshold draws only, with the same
  configuration, data and other draws, give the same result table or the same
  exception.
\<close>

theorem wind_bin_threshold_draws_have_no_effect:
  "run_AEP_monte_carlo eng (s\<lparr>mc_wind_bin_thresh := w\<rparr>)
     = with_wind_bin_thresh w (run_AEP_monte_carlo eng s)
   \<and> results_of (run_AEP_monte_carlo eng (s\<lparr>mc_wind_bin_thresh := w\<rparr>))
     = results_of (run_AEP_monte_carlo eng s)
   \<and> results_of (run eng (e\<lparr>rand_wind_bin_thresh := r\<rparr>) s n_sim products)
     = results_of (run eng e s n_sim products)"
proof (intro conjI)
  show "run_AEP_monte_carlo eng (s\<lparr>mc_wind_bin_thresh := w\<rparr>)
     = with_wind_bin_thresh w (run_AEP_monte_carlo eng s)"
    by (rule run_AEP_wind_bin_thresh)
  show "results_of (run_AEP_monte_carlo eng (s\<lparr>mc_wind_bin_thresh := w\<rparr>))
     = results_of (run_AEP_monte_carlo eng s)"
    by (simp add: run_AEP_wind_bin_thresh)
  show "results_of (run eng (e\<lparr>rand_wind_bin_thresh := r\<rparr>) s n_sim products)
     = results_of (run eng e s n_sim products)"
  proof (cases "calculate_long_term_losses (s\<lparr>num_sim := n_sim, reanal_subset := products\<rparr>)")
    case (Inl err)
    then show ?thesis by (simp add: run_def and_then_def)
  next
    case (Inr s1)
    from setup_wind_bin_entropy [where e = e and r = r and s = s1] obtain w' where
      w: "setup_monte_carlo_inputs (e\<lparr>rand_wind_bin_thresh := r\<rparr>) s1 =
        (case setup_monte_carlo_inputs e s1 of
           Inl err \<Rightarrow> Inl err
         | Inr s2 \<Rightarrow> Inr (s2\<lparr>mc_wind_bin_thresh := w'\<rparr>))"
      by blast
    show ?thesis
      by (cases "setup_monte_carlo_inputs e s1")
         (simp_all add: run_def and_then_def Inr w run_AEP_wind_bin_thresh)
  qed
qed

lemma kept_rows_example_2:
  "kept_rows example_unresponsive ''era'' (1 / 5) example_filter_table =
    [example_filter_row 1 9.7 0.02 8 False,
     example_filter_row 2 (- 1) 0.02 7 False,
     example_filter_row 3 900 0.02 7 False]"
proof -
  have s: "filter (loss_ok (1 / 5)) example_filter_table =
    [example_filter_row 1 9.7 0.02 8 False,
     example_filter_row 2 (- 1) 0.02 7 False,
     example_filter_row 3 900 0.02 7 False,
     example_filter_row 6 5 0.02 7 False,
     example_filter_row 7 9.7 0.02 45 False]"
    by (simp add: example_filter_table_def loss_ok_def example_filter_row_def)
  have u: "[0..<5] = [0, 1, 2, 3, 4::nat]"
    by code_simp
  show ?thesis
    unfolding kept_rows_def Let_def s
    by (simp add: u wind_ok_def example_unresponsive_def example_filter_row_def)
qed

lemma example_run_state_fields [simp]:
  "monthly_daily (example_run_state\<lparr>outlier_filtering := f\<rparr>) = example_filter_table"
  "time_resolution (example_run_state\<lparr>outlier_filtering := f\<rparr>) = ''M''"
  "reg_model (example_run_state\<lparr>outlier_filtering := f\<rparr>) = ''lin''"
  "reg_temperature (example_run_state\<lparr>outlier_filtering := f\<rparr>) = ''N''"
  "reg_winddirection (example_run_state\<lparr>outlier_filtering := f\<rparr>) = ''N''"
  "plant_capacity (example_run_state\<lparr>outlier_filtering := f\<rparr>) = 100"
  "mc_reanalysis_product (example_run_state\<lparr>outlier_filtering := f\<rparr>) = [''era'', ''era'', ''era'']"
  "mc_max_power_filter (example_run_state\<lparr>outlier_filtering := f\<rparr>) = [0.8, 0.85, 0.8]"
  "mc_loss_threshold (example_run_state\<lparr>outlier_filtering := f\<rparr>) = [0.1, 0.2, 0.1]"
  "mc_metered_energy_fraction (example_run_state\<lparr>outlier_filtering := f\<rparr>) = [1, 1.01, 0.99]"
  "mc_loss_fraction (example_run_state\<lparr>outlier_filtering := f\<rparr>) = [1, 0.95, 1.05]"
  "mc_num_years_windiness (example_run_state\<lparr>outlier_filtering := f\<rparr>) = [10, 20, 15]"
  "long_term_losses (example_run_state\<lparr>outlier_filtering := f\<rparr>) = Some (0.02, 0.01)"
  "reanalysis_por_avg (example_run_state\<lparr>outlier_filtering := f\<rparr>) = replicate 12 (\<lambda>c. 8)"
  "outlier_filtering (example_run_state\<lparr>outlier_filtering := f\<rparr>) = f"
  "num_sim example_run_state = 3"
  by (simp_all add: example_run_state_def example_analysis_def)

lemma example_determined_run:
  "determine_valid_data example_unresponsive (example_run_state\<lparr>outlier_filtering := f\<rparr>)
     (4392 / 5) ''era'' 0.1 = example_valid_data"
  "determine_valid_data example_unresponsive (example_run_state\<lparr>outlier_filtering := f\<rparr>)
     (4392 / 5) ''era'' (1 / 5) = example_valid_data"
  unfolding determine_valid_data_kept
  by (simp_all add: kept_rows_example kept_rows_example_2 example_valid_data_def
      example_valid_row_def select_columns_def valid_columns_def zero_flagged_energy_def
      range_flag_def example_filter_row_def column_def)

lemma example_run_keys:
  "filter_key example_run_state 0 = (''era'', 0.8, 0.1)"
  "filter_key example_run_state (Suc 0) = (''era'', 0.85, 0.2)"
  "filter_key example_run_state 2 = (''era'', 0.8, 0.1)"
  by (simp_all add: filter_key_def example_run_state_def example_analysis_def)

lemma example_filter_run:
  assumes "n < 3"
    and "f (filter_key example_run_state n) = None \<or>
         f (filter_key example_run_state n) = Some example_valid_data"
  shows "filter_outliers example_unresponsive (example_run_state\<lparr>outlier_filtering := f\<rparr>) n =
      Inr (example_valid_data, example_run_state
        \<lparr>outlier_filtering := f(filter_key example_run_state n \<mapsto> example_valid_data)\<rparr>)"
proof -
  have n: "n = 0 \<or> n = 1 \<or> n = 2" using assms(1) by auto
  have u: "f(k \<mapsto> v) = f" if "f k = Some v" for k :: "string \<times> real \<times> real" and v
    using that by auto
  from assms(2) show ?thesis
  proof
    assume "f (filter_key example_run_state n) = None"
    with n show ?thesis
      by (auto simp: filter_outliers_def plant_capac_def Let_def
          example_determined_run example_run_keys)
  next
    assume h: "f (filter_key example_run_state n) = Some example_valid_data"
    from n h show ?thesis
      unfolding u [OF h]
      by (auto simp: filter_outliers_def Let_def example_run_keys)
  qed
qed

lemma replicate_12: "replicate 12 x = [x, x, x, x, x, x, x, x, x, x, x, x]"
  by (simp add: eval_nat_numeral)

lemma example_linear_gross:
  "linear_gross (example_run_state\<lparr>outlier_filtering := f\<rparr>) ''era'' (replicate 12 [8])
     (Linear [1 / 2] 6) =
   Inr (map (\<lambda>d. d / 3) num_days_lt_monthly, map (\<lambda>d. d / 3) num_days_lt_monthly)"
  by (simp add: linear_gross_def Let_def dot_def por_inputs_def undo_normalization_def
      num_days_lt_def replicate_12 and_then_def num_days_lt_monthly_def)

lemma example_regression_rows:
  assumes "n < 3"
  shows "\<exists>rows. all_rows (map (regression_row (example_run_state\<lparr>outlier_filtering := f\<rparr>) n)
            example_valid_data) = Inr rows"
proof -
  have n: "n = 0 \<or> n = 1 \<or> n = 2" using assms by auto
  then show ?thesis
    by (auto simp: example_valid_data_def example_valid_row_def regression_row_def
        get_column_def v_column_def at_index_def and_then_def)
qed

lemma example_engine_fields [simp]:
  "ext_unresponsive_flag example_engine = example_unresponsive"
  "ext_linear_regression example_engine inputs target = Inr ([0.5], 6)"
  "ext_long_term_reanalysis example_engine n res t wd years reanal = Inr (replicate 12 [8])"
  by (simp_all add: example_engine_def)

lemma example_long_term_gross:
  assumes "n < 3"
    and "f (filter_key example_run_state n) = None \<or>
         f (filter_key example_run_state n) = Some example_valid_data"
  shows "long_term_gross example_engine (example_run_state\<lparr>outlier_filtering := f\<rparr>) n =
      Inr ((map (\<lambda>d. d / 3) num_days_lt_monthly,
            map (\<lambda>d. d / 3) num_days_lt_monthly),
        example_run_state
          \<lparr>outlier_filtering := f(filter_key example_run_state n \<mapsto> example_valid_data)\<rparr>)"
proof -
  from example_regression_rows [OF assms(1)] obtain rows where
    r: "all_rows (map (regression_row (example_run_state
          \<lparr>outlier_filtering := f(filter_key example_run_state n \<mapsto> example_valid_data)\<rparr>) n)
            example_valid_data) = Inr rows"
    by blast
  have s: "set_regression_data example_engine (example_run_state\<lparr>outlier_filtering := f\<rparr>) n =
      Inr (rows, example_run_state
          \<lparr>outlier_filtering := f(filter_key example_run_state n \<mapsto> example_valid_data)\<rparr>)"
    by (simp add: set_regression_data_def example_filter_run [of n f, OF assms] and_then_def r)
  have g: "run_regression example_engine (example_run_state\<lparr>outlier_filtering := f\<rparr>) n =
      Inr (Linear [0.5] 6, example_run_state
          \<lparr>outlier_filtering := f(filter_key example_run_state n \<mapsto> example_valid_data)\<rparr>)"
    by (simp add: run_regression_def s and_then_def Let_def)
  have n: "n = 0 \<or> n = 1 \<or> n = 2" using assms(1) by auto
  then show ?thesis
    by (auto simp: long_term_gross_def g and_then_def at_index_def example_linear_gross)
qed

lemma sum_example_gross: "sum_list (map (\<lambda>d. d / 3) num_days_lt_monthly) = 487 / 4"
  by (simp add: num_days_lt_monthly_def)

lemma example_simulate:
  assumes "n < 3"
    and "f (filter_key example_run_state n) = None \<or>
         f (filter_key example_run_state n) = Some example_valid_data"
  shows "simulate example_engine (example_run_state\<lparr>outlier_filtering := f\<rparr>) n =
      Inr (example_results ! n, example_run_state
          \<lparr>outlier_filtering := f(filter_key example_run_state n \<mapsto> example_valid_data)\<rparr>)"
proof -
  have n: "n = 0 \<or> n = 1 \<or> n = 2" using assms(1) by auto
  then show ?thesis
    by (auto simp: simulate_def example_long_term_gross [of n f, OF assms] and_then_def
        sample_long_term_losses_def at_index_def sum_example_gross example_results_def)
qed

lemma example_run:
  "run_AEP_monte_carlo example_engine example_run_state =
     Inr (example_results, example_run_state
       \<lparr>outlier_filtering :=
          (\<lambda>k. None)((''era'', 0.8, 0.1) \<mapsto> example_valid_data,
                       (''era'', 0.85, 0.2) \<mapsto> example_valid_data)\<rparr>)"
proof -
  have e: "example_run_state = example_run_state\<lparr>outlier_filtering := (\<lambda>k. None)\<rparr>"
    by (simp add: example_run_state_def example_analysis_def)
  have 0: "simulate example_engine example_run_state 0 =
      Inr (example_results ! 0, example_run_state
          \<lparr>outlier_filtering := (\<lambda>k. None)((''era'', 0.8, 0.1) \<mapsto> example_valid_data)\<rparr>)"
    using example_simulate [of 0 "\<lambda>k. None"] by (simp add: e [symmetric] example_run_keys)
  have 1: "simulate example_engine (example_run_state
          \<lparr>outlier_filtering := (\<lambda>k. None)((''era'', 0.8, 0.1) \<mapsto> example_valid_data)\<rparr>) 1 =
      Inr (example_results ! 1, example_run_state
          \<lparr>outlier_filtering := (\<lambda>k. None)((''era'', 0.8, 0.1) \<mapsto> example_valid_data,
                       (''era'', 0.85, 0.2) \<mapsto> example_valid_data)\<rparr>)"
    using example_simulate [of 1 "(\<lambda>k. None)((''era'', 0.8, 0.1) \<mapsto> example_valid_data)"]
    by (simp add: example_run_keys)
  have 2: "simulate example_engine (example_run_state
          \<lparr>outlier_filtering := (\<lambda>k. None)((''era'', 0.8, 0.1) \<mapsto> example_valid_data,
                       (''era'', 0.85, 0.2) \<mapsto> example_valid_data)\<rparr>) 2 =
      Inr (example_results ! 2, example_run_state
          \<lparr>outlier_filtering := (\<lambda>k. None)((''era'', 0.8, 0.1) \<mapsto> example_valid_data,
                       (''era'', 0.85, 0.2) \<mapsto> example_valid_data)\<rparr>)"
    using example_simulate [of 2 "(\<lambda>k. None)((''era'', 0.8, 0.1) \<mapsto> example_valid_data,
                       (''era'', 0.85, 0.2) \<mapsto> example_valid_data)"]
    by (simp add: example_run_keys fun_upd_twist)
  have a: "and_then (Inr x) g = g x" for x :: "sim_row \<times> analysis"
    and g :: "sim_row \<times> analysis \<Rightarrow> error + sim_row list \<times> analysis"
    by (simp add: and_then_def)
  have b: "and_then (Inr x) g = g x" for x :: "sim_row list \<times> analysis"
    and g :: "sim_row list \<times> analysis \<Rightarrow> error + sim_row list \<times> analysis"
    by (simp add: and_then_def)
  have r: "[example_results ! 0, example_results ! 1, example_results ! 2] = example_results"
    by (simp add: example_results_def)
  have n: "num_sim example_run_state = 3" by simp
  show ?thesis
    unfolding run_AEP_monte_carlo_def n upt_0_3
    by (simp only: simulations.simps 0 1 2 a b prod.case r)
qed

lemma example_first_iteration:
  "simulations example_engine example_run_state [0..<1] =
     Inr ([example_results ! 0], example_run_state
       \<lparr>outlier_filtering := (\<lambda>k. None)((''era'', 0.8, 0.1) \<mapsto> example_valid_data)\<rparr>)"
proof -
  have e: "example_run_state = example_run_state\<lparr>outlier_filtering := (\<lambda>k. None)\<rparr>"
    by (simp add: example_run_state_def example_analysis_def)
  have 0: "simulate example_engine example_run_state 0 =
      Inr (example_results ! 0, example_run_state
          \<lparr>outlier_filtering := (\<lambda>k. None)((''era'', 0.8, 0.1) \<mapsto> example_valid_data)\<rparr>)"
    using example_simulate [of 0 "\<lambda>k. None"] by (simp add: e [symmetric] example_run_keys)
  have u: "[0..<1] = [0::nat]" by simp
  show ?thesis
    unfolding u by (simp add: 0 and_then_def)
qed

lemma example_second_gross:
  "long_term_gross example_engine (example_run_state
       \<lparr>outlier_filtering := (\<lambda>k. None)((''era'', 0.8, 0.1) \<mapsto> example_valid_data)\<rparr>) 1 =
     Inr ((map (\<lambda>d. d / 3) num_days_lt_monthly, map (\<lambda>d. d / 3) num_days_lt_monthly),
       example_run_state
         \<lparr>outlier_filtering := (\<lambda>k. None)((''era'', 0.8, 0.1) \<mapsto> example_valid_data,
                       (''era'', 0.85, 0.2) \<mapsto> example_valid_data)\<rparr>)"
  using example_long_term_gross
    [of 1 "(\<lambda>k. None)((''era'', 0.8, 0.1) \<mapsto> example_valid_data)"]
  by (simp add: example_run_keys)

theorem aep_of_every_simulation_witness:
  "\<exists>results s'.
      run_AEP_monte_carlo example_engine example_run_state = Inr (results, s')
    \<and> results = example_results
    \<and> length results = num_sim example_run_state
    \<and> (\<exists>s_1 gross_lt gross_por s_1'.
          simulations example_engine example_run_state [0..<1] = Inr (take 1 results, s_1)
        \<and> s_1 = example_run_state
            \<lparr>outlier_filtering := (\<lambda>k. None)((''era'', 0.8, 0.1) \<mapsto> example_valid_data)\<rparr>
        \<and> long_term_gross example_engine s_1 1 = Inr ((gross_lt, gross_por), s_1')
        \<and> sum_list gross_lt = 121.75
        \<and> long_term_losses example_run_state = Some (0.02, 0.01)
        \<and> mc_loss_fraction example_run_state ! 1 = 0.95
        \<and> avail_pct (results ! 1) = 0.02 * 0.95
        \<and> curt_pct (results ! 1) = 0.01 * 0.95
        \<and> aep_GWh (results ! 1) = sum_list gross_lt * (1 - 0.02 * 0.95)
        \<and> aep_GWh (results ! 1) = 119.43675)"
proof -
  let ?s1 = "example_run_state
      \<lparr>outlier_filtering := (\<lambda>k. None)((''era'', 0.8, 0.1) \<mapsto> example_valid_data)\<rparr>"
  have l: "long_term_losses example_run_state = Some (0.02, 0.01)"
    and m: "mc_loss_fraction example_run_state ! 1 = 0.95"
    and n: "(1::nat) < num_sim example_run_state"
    by (simp_all add: example_run_state_def example_analysis_def)
  have x: "aep_GWh (example_results ! 1) = 119.43675"
    by (simp add: example_results_def)
  from aep_of_every_simulation [OF example_run] have
    len: "length example_results = num_sim example_run_state"
    and each: "\<forall>n<num_sim example_run_state.
      \<exists>s_n gross_lt gross_por s_n' avail_annual curt_annual.
        simulations example_engine example_run_state [0..<n] = Inr (take n example_results, s_n)
      \<and> (\<exists>f. s_n = example_run_state\<lparr>outlier_filtering := f\<rparr>)
      \<and> long_term_gross example_engine s_n n = Inr ((gross_lt, gross_por), s_n')
      \<and> long_term_losses example_run_state = Some (avail_annual, curt_annual)
      \<and> n < length (mc_loss_fraction example_run_state)
      \<and> avail_pct (example_results ! n) = avail_annual * mc_loss_fraction example_run_state ! n
      \<and> curt_pct (example_results ! n) = curt_annual * mc_loss_fraction example_run_state ! n
      \<and> aep_GWh (example_results ! n)
          = sum_list gross_lt * (1 - avail_annual * mc_loss_fraction example_run_state ! n)"
    by blast+
  from each [rule_format, OF n] obtain s_n gross_lt gross_por s_n' a c where
    sim: "simulations example_engine example_run_state [0..<1] =
        Inr (take 1 example_results, s_n)"
    and g: "long_term_gross example_engine s_n 1 = Inr ((gross_lt, gross_por), s_n')"
    and ll: "long_term_losses example_run_state = Some (a, c)"
    and v: "avail_pct (example_results ! 1) = a * mc_loss_fraction example_run_state ! 1"
      "curt_pct (example_results ! 1) = c * mc_loss_fraction example_run_state ! 1"
      "aep_GWh (example_results ! 1)
          = sum_list gross_lt * (1 - a * mc_loss_fraction example_run_state ! 1)"
    by blast
  from ll l have ac: "a = 0.02" "c = 0.01" by simp_all
  from sim have s1: "s_n = ?s1"
    unfolding example_first_iteration by simp
  from g [unfolded s1 example_second_gross] have
    "gross_lt = map (\<lambda>d. d / 3) num_days_lt_monthly"
    by simp
  then have sg: "sum_list gross_lt = 121.75"
    by (simp add: sum_example_gross)
  have "\<exists>s_1 gross_lt gross_por s_1'.
          simulations example_engine example_run_state [0..<1] =
            Inr (take 1 example_results, s_1)
        \<and> s_1 = ?s1
        \<and> long_term_gross example_engine s_1 1 = Inr ((gross_lt, gross_por), s_1')
        \<and> sum_list gross_lt = 121.75
        \<and> long_term_losses example_run_state = Some (0.02, 0.01)
        \<and> mc_loss_fraction example_run_state ! 1 = 0.95
        \<and> avail_pct (example_results ! 1) = 0.02 * 0.95
        \<and> curt_pct (example_results ! 1) = 0.01 * 0.95
        \<and> aep_GWh (example_results ! 1) = sum_list gross_lt * (1 - 0.02 * 0.95)
        \<and> aep_GWh (example_results ! 1) = 119.43675"
    using sim g l m v x sg s1 unfolding ac m by blast
  with example_run len show ?thesis by blast
qed


end
